theory Spec2Isabelle
  imports Complex_Main "HOL-Library.Char_ord"
begin

section \<open>Strings, bytes and regular expressions\<close>

text \<open>
  A JavaScript string is modelled as a \<^typ>\<open>string\<close>: one \<^typ>\<open>char\<close> per code unit,
  restricted to the code units below 256 (the range of an HTTP header value and of every
  character the patterns of \<open>useCloudflareAccess.ts\<close> name). A \<open>Uint8Array\<close> is the list
  of its elements.
\<close>

type_synonym Uint8Array = "nat list"

text \<open>
  The regular expressions of the module are all anchored at both ends (\<open>^...$\<close>, no
  \<open>m\<close> flag), so \<open>RegExp.prototype.test\<close> is a match of the whole string. They are built
  from character classes (lists of inclusive ranges), literal characters, concatenation,
  \<open>+\<close> and \<open>{n}\<close>. Matching is by derivatives.
\<close>

datatype rx =
    Nul
  | Eps
  | Cls "(char \<times> char) list"
  | Seq rx rx
  | Alt rx rx
  | Star rx

definition in_cls :: "(char \<times> char) list \<Rightarrow> char \<Rightarrow> bool" where
  "in_cls rs c = list_ex (\<lambda>(lo, hi). lo \<le> c \<and> c \<le> hi) rs"

fun nullable :: "rx \<Rightarrow> bool" where
  "nullable Nul = False"
| "nullable Eps = True"
| "nullable (Cls rs) = False"
| "nullable (Seq r s) = (nullable r \<and> nullable s)"
| "nullable (Alt r s) = (nullable r \<or> nullable s)"
| "nullable (Star r) = True"

fun deriv :: "char \<Rightarrow> rx \<Rightarrow> rx" where
  "deriv c Nul = Nul"
| "deriv c Eps = Nul"
| "deriv c (Cls rs) = (if in_cls rs c then Eps else Nul)"
| "deriv c (Seq r s) =
     (if nullable r then Alt (Seq (deriv c r) s) (deriv c s) else Seq (deriv c r) s)"
| "deriv c (Alt r s) = Alt (deriv c r) (deriv c s)"
| "deriv c (Star r) = Seq (deriv c r) (Star r)"

fun regex_test :: "rx \<Rightarrow> string \<Rightarrow> bool" where
  "regex_test r [] = nullable r"
| "regex_test r (c # cs) = regex_test (deriv c r) cs"

text \<open>The pattern \<open>r+\<close>, a literal string, and \<open>r{n}\<close>.\<close>

definition Plus :: "rx \<Rightarrow> rx" where
  "Plus r = Seq r (Star r)"

fun Lit :: "string \<Rightarrow> rx" where
  "Lit [] = Eps"
| "Lit (c # cs) = Seq (Cls [(c, c)]) (Lit cs)"

fun Rep :: "nat \<Rightarrow> rx \<Rightarrow> rx" where
  "Rep 0 r = Eps"
| "Rep (Suc n) r = Seq r (Rep n r)"

text \<open>\<open>String.prototype.split\<close> with a separator of one character.\<close>

fun str_split :: "char \<Rightarrow> string \<Rightarrow> string list" where
  "str_split d [] = [[]]"
| "str_split d (c # cs) =
     (if c = d then [] # str_split d cs
      else (case str_split d cs of [] \<Rightarrow> [[c]] | w # ws \<Rightarrow> (c # w) # ws))"

text \<open>\<open>String.prototype.includes\<close>: the argument occurs as a contiguous substring.\<close>

fun starts_with :: "string \<Rightarrow> string \<Rightarrow> bool" where
  "starts_with [] s = True"
| "starts_with (p # ps) [] = False"
| "starts_with (p # ps) (c # cs) = (p = c \<and> starts_with ps cs)"

fun str_includes :: "string \<Rightarrow> string \<Rightarrow> bool" where
  "str_includes [] p = (p = [])"
| "str_includes (c # cs) p = (starts_with p (c # cs) \<or> str_includes cs p)"

text \<open>
  The language of a pattern, as a set of strings: the specification the derivative
  matcher is proved against.
\<close>

definition conc :: "string set \<Rightarrow> string set \<Rightarrow> string set" where
  "conc A B = {u @ v | u v. u \<in> A \<and> v \<in> B}"

inductive_set star :: "string set \<Rightarrow> string set" for A :: "string set" where
  star_nil: "[] \<in> star A"
| star_app: "u \<in> A \<Longrightarrow> v \<in> star A \<Longrightarrow> u @ v \<in> star A"

fun lang :: "rx \<Rightarrow> string set" where
  "lang Nul = {}"
| "lang Eps = {[]}"
| "lang (Cls rs) = {[c] | c. in_cls rs c}"
| "lang (Seq r s) = conc (lang r) (lang s)"
| "lang (Alt r s) = lang r \<union> lang s"
| "lang (Star r) = star (lang r)"

section \<open>JavaScript values, thrown errors and the runtime\<close>

text \<open>
  A value produced by \<open>JSON.parse\<close>. The list of an object holds its own properties
  (one entry per key); a property is read with \<^const>\<open>map_of\<close>. Where the source passes a
  JavaScript value to a schema, the model passes a \<open>json option\<close>: \<open>None\<close> is
  \<open>undefined\<close> (a property that is absent). A \<open>number\<close> is the rational it denotes.
\<close>

datatype json =
    JNull
  | JBool bool
  | JNum rat
  | JStr string
  | JArr "json list"
  | JObj "(string \<times> json) list"

text \<open>
  What a \<open>throw\<close> can carry: \<open>new Error(message)\<close>, the \<open>ZodError\<close> of a failed
  \<open>parse\<close> (its list of issues is not modelled), the \<open>SyntaxError\<close> of \<open>JSON.parse\<close>,
  the \<open>TypeError\<close> of \<open>new URL\<close> and of a failed \<open>fetch\<close>, the \<open>DOMException\<close> of
  \<open>atob\<close> and of \<open>crypto.subtle.importKey\<close>, and the exception of \<open>newHTTPException\<close>.
\<close>

datatype js_error =
    Error string
  | ZodError
  | SyntaxError
  | TypeError
  | DOMException
  | HTTPException nat string

text \<open>
  Modelled from the spec: \<open>helpers/errors.ts\<close> (the source of \<open>newHTTPException\<close>) is not
  among the source files. The spec calls its result a status-coded rejection raised to the
  HTTP caller; the model keeps the status and the message it is called with.
\<close>

definition newHTTPException :: "nat \<Rightarrow> string \<Rightarrow> js_error" where
  "newHTTPException status message = HTTPException status message"

definition bindE :: "js_error + 'a \<Rightarrow> ('a \<Rightarrow> js_error + 'b) \<Rightarrow> js_error + 'b" where
  "bindE m f = (case m of Inl e \<Rightarrow> Inl e | Inr x \<Rightarrow> f x)"

record URL =
  href :: string
  origin :: string

record Response =
  status :: nat
  body :: string

record AccessHeader =
  hdr_kid :: string
  hdr_alg :: string
  hdr_typ :: "string option"

record AccessKey =
  key_kid :: string
  key_kty :: string
  key_alg :: string
  key_use :: string
  key_e :: string
  key_n :: string

record PublicCERT =
  cert_kid :: string
  cert :: string

record AccessCertsResponse =
  keys :: "AccessKey list"
  public_cert :: PublicCERT
  public_certs :: "PublicCERT list"

text \<open>
  \<open>AccessPayload\<close> is the union of the two payload objects: \<open>aud\<close> is a string or an
  array of strings, and the properties only one variant has are \<open>None\<close> (\<open>undefined\<close>)
  in the other.
\<close>

datatype aud_t = AudString string | AudArray "string list"

record AccessPayload =
  type' :: string
  exp' :: rat
  iat :: rat
  iss :: string
  aud :: aud_t
  sub :: string
  identity_nonce :: "string option"
  nbf :: "rat option"
  email :: "string option"
  country :: "string option"
  common_name :: "string option"

datatype CryptoKey = CryptoKey AccessKey

text \<open>
  The functions of the runtime and of the libraries the module calls, taken as parameters:
  \<open>atob\<close> (\<open>None\<close> when it throws), \<open>TextDecoder.decode\<close>, \<open>JSON.parse\<close> (\<open>None\<close> when
  it throws), \<open>new URL(path, base)\<close> (\<open>None\<close> when it throws), \<open>fetch\<close> (\<open>None\<close> when
  the promise rejects), \<open>Date.now()\<close> in milliseconds, \<open>crypto.subtle.importKey\<close>
  (\<open>None\<close> when it rejects) and \<open>crypto.subtle.verify\<close> for RSASSA-PKCS1-v1_5 with
  SHA-256, and the pattern behind zod's \<open>z.string().uuid()\<close>.
\<close>

record platform =
  atob :: "string \<Rightarrow> string option"
  TextDecoder_decode :: "Uint8Array \<Rightarrow> string"
  JSON_parse :: "string \<Rightarrow> json option"
  new_URL :: "string \<Rightarrow> string \<Rightarrow> URL option"
  fetch :: "string \<Rightarrow> Response option"
  Date_now :: int
  crypto_subtle_importKey :: "AccessKey \<Rightarrow> CryptoKey option"
  crypto_subtle_verify :: "CryptoKey \<Rightarrow> Uint8Array \<Rightarrow> Uint8Array \<Rightarrow> bool"
  zod_uuid :: "string \<Rightarrow> bool"

text \<open>
  An asynchronous function of the module returns the calls it made to the outside, in
  order, and either the value it resolves to or the error it throws.
\<close>

datatype event =
    Fetch string
  | ImportKey AccessKey
  | Verify CryptoKey Uint8Array Uint8Array
  | LoggerWarn js_error
  | SentryCapture js_error

type_synonym 'a io = "event list \<times> (js_error + 'a)"

definition lift :: "js_error + 'a \<Rightarrow> 'a io" where
  "lift r = ([], r)"

definition throw :: "js_error \<Rightarrow> 'a io" where
  "throw e = ([], Inl e)"

definition bindIO :: "'a io \<Rightarrow> ('a \<Rightarrow> 'b io) \<Rightarrow> 'b io" where
  "bindIO m f =
     (case m of
        (t, Inl e) \<Rightarrow> (t, Inl e)
      | (t, Inr x) \<Rightarrow> (case f x of (t', r) \<Rightarrow> (t @ t', r)))"

definition catchIO :: "'a io \<Rightarrow> (js_error \<Rightarrow> 'a io) \<Rightarrow> 'a io" where
  "catchIO m h =
     (case m of
        (t, Inr x) \<Rightarrow> (t, Inr x)
      | (t, Inl e) \<Rightarrow> (case h e of (t', r) \<Rightarrow> (t @ t', r)))"

definition do_fetch :: "platform \<Rightarrow> string \<Rightarrow> Response io" where
  "do_fetch P url =
     ([Fetch url], case fetch P url of None \<Rightarrow> Inl TypeError | Some r \<Rightarrow> Inr r)"

definition Response_json :: "platform \<Rightarrow> Response \<Rightarrow> js_error + json" where
  "Response_json P r = (case JSON_parse P (body r) of None \<Rightarrow> Inl SyntaxError | Some j \<Rightarrow> Inr j)"

definition do_importKey :: "platform \<Rightarrow> AccessKey \<Rightarrow> CryptoKey io" where
  "do_importKey P jwk =
     ([ImportKey jwk],
      case crypto_subtle_importKey P jwk of None \<Rightarrow> Inl DOMException | Some k \<Rightarrow> Inr k)"

definition do_verify :: "platform \<Rightarrow> CryptoKey \<Rightarrow> Uint8Array \<Rightarrow> Uint8Array \<Rightarrow> bool io" where
  "do_verify P k sg dat = ([Verify k sg dat], Inr (crypto_subtle_verify P k sg dat))"

section \<open>The zod schemas\<close>

text \<open>
  \<open>schema.parse(v)\<close> returns the parsed value or throws a \<open>ZodError\<close>. An object schema
  reads the properties it names and drops the others; a property that fails makes the
  whole parse fail.
\<close>

definition z_string :: "json option \<Rightarrow> js_error + string" where
  "z_string v = (case v of Some (JStr s) \<Rightarrow> Inr s | _ \<Rightarrow> Inl ZodError)"

definition z_regex :: "rx \<Rightarrow> string \<Rightarrow> js_error + string" where
  "z_regex r s = (if regex_test r s then Inr s else Inl ZodError)"

definition z_min :: "nat \<Rightarrow> string \<Rightarrow> js_error + string" where
  "z_min n s = (if n \<le> length s then Inr s else Inl ZodError)"

definition z_length :: "nat \<Rightarrow> string \<Rightarrow> js_error + string" where
  "z_length n s = (if length s = n then Inr s else Inl ZodError)"

definition z_refine :: "(string \<Rightarrow> bool) \<Rightarrow> string \<Rightarrow> js_error + string" where
  "z_refine f s = (if f s then Inr s else Inl ZodError)"

definition z_literal :: "string \<Rightarrow> json option \<Rightarrow> js_error + string" where
  "z_literal l v = (if v = Some (JStr l) then Inr l else Inl ZodError)"

definition z_enum :: "string list \<Rightarrow> json option \<Rightarrow> js_error + string" where
  "z_enum ls v = (case v of Some (JStr s) \<Rightarrow> if s \<in> set ls then Inr s else Inl ZodError
                  | _ \<Rightarrow> Inl ZodError)"

definition z_optional :: "(json option \<Rightarrow> js_error + 'a) \<Rightarrow> json option \<Rightarrow> js_error + 'a option" where
  "z_optional f v = (case v of None \<Rightarrow> Inr None | Some x \<Rightarrow> bindE (f (Some x)) (\<lambda>y. Inr (Some y)))"

definition z_undefined :: "json option \<Rightarrow> js_error + unit" where
  "z_undefined v = (case v of None \<Rightarrow> Inr () | Some x \<Rightarrow> Inl ZodError)"

definition z_number_min :: "rat \<Rightarrow> json option \<Rightarrow> js_error + rat" where
  "z_number_min m v = (case v of Some (JNum n) \<Rightarrow> if m \<le> n then Inr n else Inl ZodError
                       | _ \<Rightarrow> Inl ZodError)"

fun z_each :: "(json option \<Rightarrow> js_error + 'a) \<Rightarrow> json list \<Rightarrow> js_error + 'a list" where
  "z_each f [] = Inr []"
| "z_each f (x # xs) = bindE (f (Some x)) (\<lambda>y. bindE (z_each f xs) (\<lambda>ys. Inr (y # ys)))"

definition z_array :: "(json option \<Rightarrow> js_error + 'a) \<Rightarrow> json option \<Rightarrow> js_error + 'a list" where
  "z_array f v = (case v of Some (JArr xs) \<Rightarrow> z_each f xs | _ \<Rightarrow> Inl ZodError)"

definition z_array_min :: "nat \<Rightarrow> (json option \<Rightarrow> js_error + 'a) \<Rightarrow> json option \<Rightarrow> js_error + 'a list" where
  "z_array_min n f v =
     bindE (z_array f v) (\<lambda>ys. if n \<le> length ys then Inr ys else Inl ZodError)"

definition z_object :: "json option \<Rightarrow> js_error + (string \<Rightarrow> json option)" where
  "z_object v = (case v of Some (JObj fs) \<Rightarrow> Inr (map_of fs) | _ \<Rightarrow> Inl ZodError)"

text \<open>\<open>/^[a-z0-9_-]+\.[a-z0-9_-]+\.[a-z0-9_-]+$/i\<close>: with the flag \<open>i\<close> a letter of the
  class matches in either case.\<close>

definition jwt_class :: rx where
  "jwt_class = Cls [(CHR ''a'', CHR ''z''), (CHR ''A'', CHR ''Z''), (CHR ''0'', CHR ''9''),
                    (CHR ''_'', CHR ''_''), (CHR ''-'', CHR ''-'')]"

definition accessJWTRegex :: rx where
  "accessJWTRegex =
     Seq (Plus jwt_class) (Seq (Lit ''.'') (Seq (Plus jwt_class) (Seq (Lit ''.'') (Plus jwt_class))))"

definition AccessJWT_parse :: "json option \<Rightarrow> js_error + string" where
  "AccessJWT_parse v = bindE (z_string v) (z_regex accessJWTRegex)"

text \<open>\<open>/^[a-z0-9-]+$/\<close>\<close>

definition team_class :: rx where
  "team_class = Cls [(CHR ''a'', CHR ''z''), (CHR ''0'', CHR ''9''), (CHR ''-'', CHR ''-'')]"

definition AccessTeam_parse :: "json option \<Rightarrow> js_error + string" where
  "AccessTeam_parse v = bindE (z_string v) (z_regex (Plus team_class))"

text \<open>\<open>/^https:\/\/[a-z0-9-]+\.cloudflareaccess\.com$/\<close>\<close>

definition AccessTeamDomain_parse :: "json option \<Rightarrow> js_error + string" where
  "AccessTeamDomain_parse v =
     bindE (z_string v)
       (z_regex (Seq (Lit ''https://'') (Seq (Plus team_class) (Lit ''.cloudflareaccess.com''))))"

text \<open>\<open>/^[a-f0-9]{64}$/\<close>, for \<open>AccessKid\<close> and for \<open>AccessAudience\<close>\<close>

definition hex_class :: rx where
  "hex_class = Cls [(CHR ''a'', CHR ''f''), (CHR ''0'', CHR ''9'')]"

definition AccessKid_parse :: "json option \<Rightarrow> js_error + string" where
  "AccessKid_parse v = bindE (z_string v) (z_regex (Rep 64 hex_class))"

definition AccessAudience_parse :: "json option \<Rightarrow> js_error + string" where
  "AccessAudience_parse v = bindE (z_string v) (z_regex (Rep 64 hex_class))"

definition AccessAlgorithm_parse :: "json option \<Rightarrow> js_error + string" where
  "AccessAlgorithm_parse v = z_literal ''RS256'' v"

definition AccessHeader_parse :: "json option \<Rightarrow> js_error + AccessHeader" where
  "AccessHeader_parse v =
     bindE (z_object v) (\<lambda>obj.
     bindE (AccessKid_parse (obj ''kid'')) (\<lambda>k.
     bindE (AccessAlgorithm_parse (obj ''alg'')) (\<lambda>a.
     bindE (z_optional (z_literal ''JWT'') (obj ''typ'')) (\<lambda>t.
     Inr \<lparr>hdr_kid = k, hdr_alg = a, hdr_typ = t\<rparr>))))"

definition AccessKey_parse :: "json option \<Rightarrow> js_error + AccessKey" where
  "AccessKey_parse v =
     bindE (z_object v) (\<lambda>obj.
     bindE (AccessKid_parse (obj ''kid'')) (\<lambda>k.
     bindE (z_literal ''RSA'' (obj ''kty'')) (\<lambda>kt.
     bindE (AccessAlgorithm_parse (obj ''alg'')) (\<lambda>a.
     bindE (bindE (z_string (obj ''use'')) (z_min 1)) (\<lambda>u.
     bindE (bindE (z_string (obj ''e'')) (z_min 1)) (\<lambda>e.
     bindE (bindE (z_string (obj ''n'')) (z_min 1)) (\<lambda>n.
     Inr \<lparr>key_kid = k, key_kty = kt, key_alg = a, key_use = u, key_e = e, key_n = n\<rparr>)))))))"

definition PublicCERT_parse :: "json option \<Rightarrow> js_error + PublicCERT" where
  "PublicCERT_parse v =
     bindE (z_object v) (\<lambda>obj.
     bindE (AccessKid_parse (obj ''kid'')) (\<lambda>k.
     bindE (bindE (bindE (z_string (obj ''cert'')) (z_min 1))
              (z_refine (\<lambda>c. str_includes c ''-----BEGIN CERTIFICATE-----''
                            \<and> str_includes c ''-----END CERTIFICATE-----''))) (\<lambda>c.
     Inr \<lparr>cert_kid = k, cert = c\<rparr>)))"

definition AccessCertsResponse_parse :: "json option \<Rightarrow> js_error + AccessCertsResponse" where
  "AccessCertsResponse_parse v =
     bindE (z_object v) (\<lambda>obj.
     bindE (z_array_min 1 AccessKey_parse (obj ''keys'')) (\<lambda>ks.
     bindE (PublicCERT_parse (obj ''public_cert'')) (\<lambda>pc.
     bindE (z_array_min 1 PublicCERT_parse (obj ''public_certs'')) (\<lambda>pcs.
     Inr \<lparr>keys = ks, public_cert = pc, public_certs = pcs\<rparr>))))"

text \<open>\<open>ServiceAuthAccessPayload\<close>: \<open>common_name\<close> matches \<open>/^[a-f0-9]{32}\.access$/\<close>.\<close>

definition ServiceAuthAccessPayload_parse :: "json option \<Rightarrow> js_error + AccessPayload" where
  "ServiceAuthAccessPayload_parse v =
     bindE (z_object v) (\<lambda>obj.
     bindE (z_enum [''app'', ''org''] (obj ''type'')) (\<lambda>ty.
     bindE (z_number_min 1 (obj ''exp'')) (\<lambda>ex.
     bindE (z_number_min 1 (obj ''iat'')) (\<lambda>ia.
     bindE (AccessTeamDomain_parse (obj ''iss'')) (\<lambda>is.
     bindE (AccessAudience_parse (obj ''aud'')) (\<lambda>au.
     bindE (bindE (z_string (obj ''common_name''))
              (z_regex (Seq (Rep 32 hex_class) (Lit ''.access'')))) (\<lambda>cn.
     bindE (z_literal [] (obj ''sub'')) (\<lambda>su.
     bindE (z_undefined (obj ''identity_nonce'')) (\<lambda>_.
     Inr \<lparr>type' = ty, exp' = ex, iat = ia, iss = is, aud = AudString au, sub = su,
          identity_nonce = None, nbf = None, email = None, country = None,
          common_name = Some cn\<rparr>)))))))))"

definition UserAccessPayload_parse :: "platform \<Rightarrow> json option \<Rightarrow> js_error + AccessPayload" where
  "UserAccessPayload_parse P v =
     bindE (z_object v) (\<lambda>obj.
     bindE (z_enum [''app'', ''org''] (obj ''type'')) (\<lambda>ty.
     bindE (z_number_min 1 (obj ''exp'')) (\<lambda>ex.
     bindE (z_number_min 1 (obj ''iat'')) (\<lambda>ia.
     bindE (AccessTeamDomain_parse (obj ''iss'')) (\<lambda>is.
     bindE (z_array AccessAudience_parse (obj ''aud'')) (\<lambda>au.
     bindE (z_number_min 1 (obj ''nbf'')) (\<lambda>nb.
     bindE (bindE (bindE (z_string (obj ''email'')) (z_min 1))
              (z_refine (\<lambda>e. str_includes e ''@''))) (\<lambda>em.
     bindE (bindE (z_string (obj ''identity_nonce'')) (z_min 1)) (\<lambda>nonce.
     bindE (bindE (z_string (obj ''sub'')) (z_refine (zod_uuid P))) (\<lambda>su.
     bindE (bindE (z_string (obj ''country'')) (z_length 2)) (\<lambda>co.
     Inr \<lparr>type' = ty, exp' = ex, iat = ia, iss = is, aud = AudArray au, sub = su,
          identity_nonce = Some nonce, nbf = Some nb, email = Some em, country = Some co,
          common_name = None\<rparr>)))))))))))"

text \<open>\<open>z.union([UserAccessPayload, ServiceAuthAccessPayload])\<close>: the first schema that
  parses the value gives the result.\<close>

definition AccessPayload_parse :: "platform \<Rightarrow> json option \<Rightarrow> js_error + AccessPayload" where
  "AccessPayload_parse P v =
     (case UserAccessPayload_parse P v of
        Inr p \<Rightarrow> Inr p
      | Inl _ \<Rightarrow> (case ServiceAuthAccessPayload_parse v of
                    Inr p \<Rightarrow> Inr p
                  | Inl _ \<Rightarrow> Inl ZodError))"

section \<open>The module \<open>useCloudflareAccess.ts\<close>\<close>

text \<open>A request is read through \<open>req.headers.get(name)\<close>, which returns a string or \<open>null\<close>.\<close>

record Request =
  headers_get :: "string \<Rightarrow> string option"

definition extractJWTFromRequest :: "Request \<Rightarrow> js_error + string" where
  "extractJWTFromRequest req =
     AccessJWT_parse
       (case headers_get req ''Cf-Access-Jwt-Assertion'' of
          None \<Rightarrow> Some JNull
        | Some s \<Rightarrow> Some (JStr s))"

definition includesAud :: "AccessPayload \<Rightarrow> string \<Rightarrow> bool" where
  "includesAud payload a =
     (case aud payload of
        AudString s \<Rightarrow> s = a
      | AudArray xs \<Rightarrow> a \<in> set xs)"

definition hasValidJWT :: "Request \<Rightarrow> bool" where
  "hasValidJWT req = (case extractJWTFromRequest req of Inr _ \<Rightarrow> True | Inl _ \<Rightarrow> False)"

text \<open>The class \<open>\s\<close>, on the code units below 256.\<close>

definition is_space :: "char \<Rightarrow> bool" where
  "is_space c = (let n = (of_char c :: nat) in (9 \<le> n \<and> n \<le> 13) \<or> n = 32 \<or> n = 160)"

definition base64URLDecode :: "platform \<Rightarrow> string \<Rightarrow> js_error + Uint8Array" where
  "base64URLDecode P s =
     (let s1 = map (\<lambda>c. if c = CHR ''-'' then CHR ''+'' else c) s;
          s2 = map (\<lambda>c. if c = CHR ''_'' then CHR ''/'' else c) s1;
          s3 = filter (\<lambda>c. \<not> is_space c) s2
      in case atob P s3 of
           None \<Rightarrow> Inl DOMException
         | Some b \<Rightarrow> Inr (map of_char b))"

fun asciiToUint8Array_loop :: "string \<Rightarrow> nat list \<Rightarrow> nat list" where
  "asciiToUint8Array_loop [] chars = chars"
| "asciiToUint8Array_loop (c # cs) chars = asciiToUint8Array_loop cs (chars @ [of_char c])"

definition asciiToUint8Array :: "string \<Rightarrow> Uint8Array" where
  "asciiToUint8Array s = asciiToUint8Array_loop s []"

text \<open>\<open>JSON.parse(textDecoder.decode(base64URLDecode(s)))\<close>, the expression that decodes
  the header segment and the payload segment.\<close>

definition decode_segment :: "platform \<Rightarrow> string \<Rightarrow> js_error + json" where
  "decode_segment P s =
     bindE (base64URLDecode P s) (\<lambda>bytes.
       case JSON_parse P (TextDecoder_decode P bytes) of
         None \<Rightarrow> Inl SyntaxError
       | Some j \<Rightarrow> Inr j)"

definition certs_URL :: "platform \<Rightarrow> string \<Rightarrow> js_error + URL" where
  "certs_URL P accessTeamDomain =
     (case new_URL P ''/cdn-cgi/access/certs'' accessTeamDomain of
        None \<Rightarrow> Inl TypeError
      | Some u \<Rightarrow> Inr u)"

text \<open>\<open>Date.now() / 1000\<close>\<close>

definition unroundedSecondsSinceEpoch :: "platform \<Rightarrow> rat" where
  "unroundedSecondsSinceEpoch P = of_int (Date_now P) / 1000"

text \<open>
  \<open>payloadObj.identity_nonce && Math.ceil(unroundedSecondsSinceEpoch) < payloadObj.nbf\<close>:
  \<open>undefined\<close> and the empty string are falsy, and a comparison with \<open>undefined\<close> is false.
\<close>

definition not_yet_valid :: "AccessPayload \<Rightarrow> rat \<Rightarrow> bool" where
  "not_yet_valid payloadObj t =
     ((case identity_nonce payloadObj of None \<Rightarrow> False | Some s \<Rightarrow> s \<noteq> []) \<and>
      (case nbf payloadObj of None \<Rightarrow> False | Some n \<Rightarrow> of_int \<lceil>t\<rceil> < n))"

definition validateAccessJWT ::
  "platform \<Rightarrow> Request \<Rightarrow> string \<Rightarrow> string \<Rightarrow> (string \<times> AccessPayload) io" where
  "validateAccessJWT P request accessTeamDomain accessAud =
     bindIO (lift (extractJWTFromRequest request)) (\<lambda>jwt.
     let parts = str_split CHR ''.'' jwt in
     if length parts \<noteq> 3 then throw (Error ''JWT does not have three parts.'')
     else
       let header = parts ! 0; payload = parts ! 1; signature = parts ! 2 in
       bindIO (lift (bindE (decode_segment P header) (\<lambda>j. AccessHeader_parse (Some j)))) (\<lambda>hdr.
       bindIO (lift (certs_URL P accessTeamDomain)) (\<lambda>certsURL.
       bindIO (do_fetch P (href certsURL)) (\<lambda>certsResponse.
       bindIO (lift (bindE (Response_json P certsResponse)
                       (\<lambda>j. AccessCertsResponse_parse (Some j)))) (\<lambda>certs.
       case find (\<lambda>key. key_kid key = hdr_kid hdr) (keys certs) of
         None \<Rightarrow> throw (Error ''Could not find matching signing key.'')
       | Some jwk \<Rightarrow>
           bindIO (do_importKey P jwk) (\<lambda>key.
           let now = unroundedSecondsSinceEpoch P in
           bindIO (lift (bindE (decode_segment P payload)
                           (\<lambda>j. AccessPayload_parse P (Some j)))) (\<lambda>payloadObj.
           if iss payloadObj \<noteq> origin certsURL then throw (Error ''JWT issuer is incorrect.'')
           else if \<not> includesAud payloadObj accessAud
             then throw (Error ''JWT audience is incorrect.'')
           else if of_int \<lfloor>now\<rfloor> \<ge> exp' payloadObj then throw (Error ''JWT has expired.'')
           else if not_yet_valid payloadObj now then throw (Error ''JWT is not yet valid.'')
           else
             bindIO (lift (base64URLDecode P signature)) (\<lambda>sg.
             bindIO (do_verify P key sg
                       (asciiToUint8Array (header @ ''.'' @ payload))) (\<lambda>verified.
             if \<not> verified then throw (Error ''Could not verify JWT.'')
             else lift (Inr (jwt, payloadObj)))))))))))"

text \<open>
  The context of a request: the raw request and whether \<open>c.var.logger\<close> and
  \<open>c.var.sentry\<close> are set. \<open>logger.warn\<close> and \<open>sentry.captureException\<close> are calls
  to the outside that return; the error they are given is recorded.
\<close>

record Context =
  req_raw :: Request
  var_logger :: bool
  var_sentry :: bool

definition middleware :: "string \<Rightarrow> string \<Rightarrow> platform \<Rightarrow> Context \<Rightarrow> unit io \<Rightarrow> unit io" where
  "middleware accessTeamDomain accessAud P c next =
     (if \<not> hasValidJWT (req_raw c) then throw (newHTTPException 401 ''unauthorized'')
      else
        bindIO
          (catchIO
             (bindIO (validateAccessJWT P (req_raw c) accessTeamDomain accessAud)
                (\<lambda>_. lift (Inr ())))
             (\<lambda>e. ((if var_logger c then [LoggerWarn e] else []) @
                    (if var_sentry c then [SentryCapture e] else []),
                   Inl (newHTTPException 401 ''unauthorized''))))
          (\<lambda>_. next))"

text \<open>
  \<open>useCloudflareAccess({ team, audience })\<close> parses its configuration and returns the
  middleware, or throws; the middleware is then run on each request.
\<close>

definition useCloudflareAccess ::
  "string \<Rightarrow> string \<Rightarrow> js_error + (platform \<Rightarrow> Context \<Rightarrow> unit io \<Rightarrow> unit io)" where
  "useCloudflareAccess team audience =
     bindE (AccessTeam_parse (Some (JStr team))) (\<lambda>t.
     bindE (AccessTeamDomain_parse (Some (JStr (''https://'' @ t @ ''.cloudflareaccess.com''))))
       (\<lambda>accessTeamDomain.
     bindE (AccessAudience_parse (Some (JStr audience))) (\<lambda>accessAud.
     Inr (middleware accessTeamDomain accessAud))))"

section \<open>Runs of \<open>validateAccessJWT\<close>\<close>

text \<open>
  The values \<open>validateAccessJWT\<close> has computed when it arrives at the checks of the claims
  (line 121 of the module): the token and its three segments, the parsed header, the certs
  URL, the response and the parsed key set, the key found and imported, and the parsed
  payload. \<open>reaches_claim_checks\<close> says that a request under a runtime produces them, one
  conjunct per statement of lines 86 to 119.
\<close>

record run =
  run_jwt :: string
  run_header :: string
  run_payload :: string
  run_signature :: string
  run_hdr :: AccessHeader
  run_certsURL :: URL
  run_certsResponse :: Response
  run_certs :: AccessCertsResponse
  run_jwk :: AccessKey
  run_key :: CryptoKey
  run_payloadObj :: AccessPayload

definition reaches_claim_checks :: "platform \<Rightarrow> Request \<Rightarrow> string \<Rightarrow> run \<Rightarrow> bool" where
  "reaches_claim_checks P request accessTeamDomain r \<longleftrightarrow>
     extractJWTFromRequest request = Inr (run_jwt r) \<and>
     str_split CHR ''.'' (run_jwt r) = [run_header r, run_payload r, run_signature r] \<and>
     bindE (decode_segment P (run_header r)) (\<lambda>j. AccessHeader_parse (Some j)) = Inr (run_hdr r) \<and>
     certs_URL P accessTeamDomain = Inr (run_certsURL r) \<and>
     fetch P (href (run_certsURL r)) = Some (run_certsResponse r) \<and>
     bindE (Response_json P (run_certsResponse r)) (\<lambda>j. AccessCertsResponse_parse (Some j))
       = Inr (run_certs r) \<and>
     find (\<lambda>key. key_kid key = hdr_kid (run_hdr r)) (keys (run_certs r)) = Some (run_jwk r) \<and>
     crypto_subtle_importKey P (run_jwk r) = Some (run_key r) \<and>
     bindE (decode_segment P (run_payload r)) (\<lambda>j. AccessPayload_parse P (Some j))
       = Inr (run_payloadObj r)"

text \<open>The calls made up to that point, and the calls of a run that goes on to the signature.\<close>

definition trace_to_claims :: "run \<Rightarrow> event list" where
  "trace_to_claims r = [Fetch (href (run_certsURL r)), ImportKey (run_jwk r)]"

definition signed_data :: "run \<Rightarrow> Uint8Array" where
  "signed_data r = asciiToUint8Array (run_header r @ ''.'' @ run_payload r)"

text \<open>Validation of a request fails: the middleware takes one of its two \<open>throw\<close>s.\<close>

definition validation_fails :: "platform \<Rightarrow> Request \<Rightarrow> string \<Rightarrow> string \<Rightarrow> bool" where
  "validation_fails P request accessTeamDomain accessAud \<longleftrightarrow>
     \<not> hasValidJWT request \<or> isl (snd (validateAccessJWT P request accessTeamDomain accessAud))"

text \<open>
  The character set of a team identifier in the words of the specification:
  alphanumeric characters plus hyphen.
\<close>

definition spec_team_char :: "char \<Rightarrow> bool" where
  "spec_team_char c \<longleftrightarrow>
     (CHR ''a'' \<le> c \<and> c \<le> CHR ''z'') \<or> (CHR ''A'' \<le> c \<and> c \<le> CHR ''Z'') \<or>
     (CHR ''0'' \<le> c \<and> c \<le> CHR ''9'') \<or> c = CHR ''-''"

section \<open>An example runtime\<close>

text \<open>
  A small runtime on which the functions are evaluated: \<open>atob\<close> and the text decoder
  return their argument, \<open>JSON.parse\<close> knows three documents by name, \<open>new URL\<close> appends
  the path to the base, \<open>fetch\<close> answers for the certs URL of the team \<open>my-team\<close>, and
  the signature \<open>sig\<close> (the bytes 115, 105, 103) verifies.
\<close>

definition ex_kid :: string where
  "ex_kid = ''0123456789abcdef0123456789abcdef0123456789abcdef0123456789abcdef''"

definition ex_aud :: string where
  "ex_aud = ''a1b2c3d4a1b2c3d4a1b2c3d4a1b2c3d4a1b2c3d4a1b2c3d4a1b2c3d4a1b2c3d4''"

definition ex_other_aud :: string where
  "ex_other_aud = ''ffffffffffffffffffffffffffffffffffffffffffffffffffffffffffffffff''"

definition ex_domain :: string where
  "ex_domain = ''https://my-team.cloudflareaccess.com''"

definition ex_header :: json where
  "ex_header = JObj [(''kid'', JStr ex_kid), (''alg'', JStr ''RS256''), (''typ'', JStr ''JWT'')]"

definition ex_key :: "string \<Rightarrow> json" where
  "ex_key k = JObj [(''kid'', JStr k), (''kty'', JStr ''RSA''), (''alg'', JStr ''RS256''),
     (''use'', JStr ''sig''), (''e'', JStr ''AQAB''), (''n'', JStr ''xyz'')]"

definition ex_cert :: json where
  "ex_cert = JObj [(''kid'', JStr ex_kid),
     (''cert'', JStr ''-----BEGIN CERTIFICATE-----MIIB-----END CERTIFICATE-----'')]"

definition ex_certs :: "json list \<Rightarrow> json list \<Rightarrow> json" where
  "ex_certs ks cs = JObj [(''keys'', JArr ks), (''public_cert'', ex_cert),
     (''public_certs'', JArr cs)]"

definition ex_user_payload :: "string \<Rightarrow> json list \<Rightarrow> rat \<Rightarrow> rat \<Rightarrow> json" where
  "ex_user_payload issuer auds ex nb = JObj [(''type'', JStr ''app''), (''exp'', JNum ex),
     (''iat'', JNum 1700000000), (''iss'', JStr issuer), (''aud'', JArr auds),
     (''nbf'', JNum nb), (''email'', JStr ''user@example.com''),
     (''identity_nonce'', JStr ''nonce''),
     (''sub'', JStr ''7335d417-61da-459d-899c-0a01c76a2f94''), (''country'', JStr ''US'')]"

definition ex_service_payload :: "string \<Rightarrow> rat \<Rightarrow> (string \<times> json) list \<Rightarrow> json" where
  "ex_service_payload a ex extra = JObj ([(''type'', JStr ''app''), (''exp'', JNum ex),
     (''iat'', JNum 1700000000), (''iss'', JStr ex_domain), (''aud'', JStr a),
     (''common_name'', JStr ''0123456789abcdef0123456789abcdef.access''),
     (''sub'', JStr [])] @ extra)"

definition ex_platform :: "json \<Rightarrow> json \<Rightarrow> json \<Rightarrow> int \<Rightarrow> platform" where
  "ex_platform hdr pl certs now_ms =
     \<lparr>atob = Some,
      TextDecoder_decode = map char_of,
      JSON_parse = [''hdr'' \<mapsto> hdr, ''pay'' \<mapsto> pl, ''certs'' \<mapsto> certs],
      new_URL = (\<lambda>path base. Some \<lparr>href = base @ path, origin = base\<rparr>),
      fetch = (\<lambda>url. if url = ''https://my-team.cloudflareaccess.com/cdn-cgi/access/certs''
                      then Some \<lparr>status = 200, body = ''certs''\<rparr> else None),
      Date_now = now_ms,
      crypto_subtle_importKey = (\<lambda>k. Some (CryptoKey k)),
      crypto_subtle_verify = (\<lambda>k sg dat. sg = [115, 105, 103]),
      zod_uuid = (\<lambda>s. length s = 36)\<rparr>"

definition ex_request :: "string option \<Rightarrow> Request" where
  "ex_request tok =
     \<lparr>headers_get = (\<lambda>n. if n = ''Cf-Access-Jwt-Assertion'' then tok else None)\<rparr>"

definition ex_context :: "string option \<Rightarrow> Context" where
  "ex_context tok = \<lparr>req_raw = ex_request tok, var_logger = True, var_sentry = False\<rparr>"

definition ex_access_key :: AccessKey where
  "ex_access_key = \<lparr>key_kid = ex_kid, key_kty = ''RSA'', key_alg = ''RS256'',
     key_use = ''sig'', key_e = ''AQAB'', key_n = ''xyz''\<rparr>"

definition ex_public_cert :: PublicCERT where
  "ex_public_cert = \<lparr>cert_kid = ex_kid,
     cert = ''-----BEGIN CERTIFICATE-----MIIB-----END CERTIFICATE-----''\<rparr>"

definition ex_user_payloadObj :: "string \<Rightarrow> string list \<Rightarrow> rat \<Rightarrow> rat \<Rightarrow> AccessPayload" where
  "ex_user_payloadObj issuer auds ex nb =
     \<lparr>type' = ''app'', exp' = ex, iat = 1700000000, iss = issuer, aud = AudArray auds,
      sub = ''7335d417-61da-459d-899c-0a01c76a2f94'', identity_nonce = Some ''nonce'',
      nbf = Some nb, email = Some ''user@example.com'', country = Some ''US'',
      common_name = None\<rparr>"

definition ex_service_payloadObj :: "string \<Rightarrow> rat \<Rightarrow> AccessPayload" where
  "ex_service_payloadObj a ex =
     \<lparr>type' = ''app'', exp' = ex, iat = 1700000000, iss = ex_domain, aud = AudString a,
      sub = [], identity_nonce = None, nbf = None, email = None, country = None,
      common_name = Some ''0123456789abcdef0123456789abcdef.access''\<rparr>"

definition ex_run :: "AccessPayload \<Rightarrow> run" where
  "ex_run payloadObj =
     \<lparr>run_jwt = ''hdr.pay.sig'', run_header = ''hdr'', run_payload = ''pay'',
      run_signature = ''sig'',
      run_hdr = \<lparr>hdr_kid = ex_kid, hdr_alg = ''RS256'', hdr_typ = Some ''JWT''\<rparr>,
      run_certsURL = \<lparr>href = ''https://my-team.cloudflareaccess.com/cdn-cgi/access/certs'',
                       origin = ex_domain\<rparr>,
      run_certsResponse = \<lparr>status = 200, body = ''certs''\<rparr>,
      run_certs = \<lparr>keys = [ex_access_key], public_cert = ex_public_cert,
                    public_certs = [ex_public_cert]\<rparr>,
      run_jwk = ex_access_key, run_key = CryptoKey ex_access_key,
      run_payloadObj = payloadObj\<rparr>"

section \<open>The matcher decides the language of a pattern\<close>


lemma nullable_lang: "nullable r \<longleftrightarrow> [] \<in> lang r"
  by (induction r) (auto simp: conc_def intro: star.star_nil)

lemma conc_Cons_iff:
  "c # s \<in> conc A B \<longleftrightarrow> ([] \<in> A \<and> c # s \<in> B) \<or> (\<exists>u v. s = u @ v \<and> c # u \<in> A \<and> v \<in> B)"
  unfolding conc_def
  by (auto simp: Cons_eq_append_conv) 

lemma star_Cons_D:
  "w \<in> star A \<Longrightarrow> w = c # s \<Longrightarrow> \<exists>u v. s = u @ v \<and> c # u \<in> A \<and> v \<in> star A"
proof (induction arbitrary: s rule: star.induct)
  case star_nil
  then show ?case by simp
next
  case (star_app u v)
  show ?case
  proof (cases u)
    case Nil
    with star_app show ?thesis by simp
  next
    case (Cons a u')
    with star_app.prems have "a = c" "s = u' @ v" by simp_all
    with Cons star_app.hyps show ?thesis by blast
  qed
qed

lemma star_Cons_iff:
  "c # s \<in> star A \<longleftrightarrow> (\<exists>u v. s = u @ v \<and> c # u \<in> A \<and> v \<in> star A)"
proof
  assume "c # s \<in> star A"
  then show "\<exists>u v. s = u @ v \<and> c # u \<in> A \<and> v \<in> star A"
    using star_Cons_D by blast
next
  assume "\<exists>u v. s = u @ v \<and> c # u \<in> A \<and> v \<in> star A"
  then obtain u v where "s = u @ v" "c # u \<in> A" "v \<in> star A" by blast
  then show "c # s \<in> star A"
    using star.star_app [of "c # u" A v] by simp
qed

lemma lang_deriv: "s \<in> lang (deriv c r) \<longleftrightarrow> c # s \<in> lang r"
proof (induction r arbitrary: s)
  case (Seq r1 r2)
  then show ?case
    by (auto simp: conc_Cons_iff nullable_lang) (auto simp: conc_def)
next
  case (Star r)
  then show ?case
    by (auto simp: star_Cons_iff) (auto simp: conc_def)
qed auto

lemma regex_test_lang: "regex_test r s \<longleftrightarrow> s \<in> lang r"
  by (induction s arbitrary: r) (auto simp: nullable_lang lang_deriv)


lemma star_cls_iff: "s \<in> star {[c] | c. in_cls rs c} \<longleftrightarrow> list_all (in_cls rs) s"
proof (induction s)
  case Nil
  show ?case by (simp add: star.star_nil)
next
  case (Cons a s)
  show ?case by (simp add: star_Cons_iff Cons.IH)
qed

lemma conc_cls_iff:
  "w \<in> conc {[c] | c. in_cls rs c} B \<longleftrightarrow> (\<exists>c v. w = c # v \<and> in_cls rs c \<and> v \<in> B)"
proof
  assume "w \<in> conc {[c] | c. in_cls rs c} B"
  then show "\<exists>c v. w = c # v \<and> in_cls rs c \<and> v \<in> B"
    unfolding conc_def by auto
next
  assume "\<exists>c v. w = c # v \<and> in_cls rs c \<and> v \<in> B"
  then obtain c v where "w = [c] @ v" "in_cls rs c" "v \<in> B" by auto
  then show "w \<in> conc {[c] | c. in_cls rs c} B"
    unfolding conc_def by blast
qed

lemma regex_test_Plus_Cls:
  "regex_test (Plus (Cls rs)) s \<longleftrightarrow> s \<noteq> [] \<and> list_all (in_cls rs) s"
  by (cases s) (auto simp: regex_test_lang Plus_def conc_cls_iff star_cls_iff)

lemma lang_Plus_Cls: "lang (Plus (Cls rs)) = {s. s \<noteq> [] \<and> list_all (in_cls rs) s}"
  using regex_test_Plus_Cls [of rs] by (auto simp: regex_test_lang)

lemma in_cls_single: "in_cls [(c, c)] x \<longleftrightarrow> x = c"
  by (auto simp: in_cls_def)

lemma lang_Lit: "lang (Lit w) = {w}"
proof (induction w)
  case Nil
  show ?case by simp
next
  case (Cons c cs)
  have "x \<in> lang (Lit (c # cs)) \<longleftrightarrow> x = c # cs" for x
    by (auto simp: Cons.IH in_cls_single conc_def)
  then show ?case by blast
qed

lemma lang_Rep_Cls: "lang (Rep n (Cls rs)) = {s. length s = n \<and> list_all (in_cls rs) s}"
proof (induction n)
  case 0
  show ?case by auto
next
  case (Suc n)
  have "s \<in> lang (Rep (Suc n) (Cls rs)) \<longleftrightarrow> length s = Suc n \<and> list_all (in_cls rs) s" for s
    by (cases s) (auto simp: Suc conc_cls_iff)
  then show ?case by blast
qed

lemma str_split_not_Nil: "str_split d s \<noteq> []"
  by (induction s) (auto split: list.splits)

lemma str_split_no_sep: "d \<notin> set a \<Longrightarrow> str_split d a = [a]"
  by (induction a) auto

lemma str_split_append: "d \<notin> set a \<Longrightarrow> str_split d (a @ d # rest) = a # str_split d rest"
  by (induction a) auto

lemma jwt_class_no_dot: "list_all (in_cls [(CHR ''a'', CHR ''z''), (CHR ''A'', CHR ''Z''), (CHR ''0'', CHR ''9''),
                    (CHR ''_'', CHR ''_''), (CHR ''-'', CHR ''-'')]) a \<Longrightarrow> CHR ''.'' \<notin> set a"
  by (induction a) (auto simp: in_cls_def)

lemma concE:
  assumes "w \<in> conc A B"
  obtains u v where "w = u @ v" "u \<in> A" "v \<in> B"
  using assms unfolding conc_def by blast

lemma accessJWTRegex_parts:
  assumes "regex_test accessJWTRegex s"
  shows "\<exists>a b c. s = a @ CHR ''.'' # b @ CHR ''.'' # c \<and> a \<noteq> [] \<and> b \<noteq> [] \<and> c \<noteq> [] \<and>
           CHR ''.'' \<notin> set a \<and> CHR ''.'' \<notin> set b \<and> CHR ''.'' \<notin> set c"
proof -
  let ?P = "lang (Plus jwt_class)"
  from assms have "s \<in> conc ?P (conc (lang (Lit ''.'')) (conc ?P (conc (lang (Lit ''.'')) ?P)))"
    by (simp add: regex_test_lang accessJWTRegex_def)
  then obtain a r1 where 1: "s = a @ r1" "a \<in> ?P"
      and r1: "r1 \<in> conc (lang (Lit ''.'')) (conc ?P (conc (lang (Lit ''.'')) ?P))"
    by (rule concE)
  from r1 obtain d1 r2 where 2: "r1 = d1 @ r2" "d1 \<in> lang (Lit ''.'')"
      and r2: "r2 \<in> conc ?P (conc (lang (Lit ''.'')) ?P)"
    by (rule concE)
  from r2 obtain b r3 where 3: "r2 = b @ r3" "b \<in> ?P"
      and r3: "r3 \<in> conc (lang (Lit ''.'')) ?P"
    by (rule concE)
  from r3 obtain d2 c where 4: "r3 = d2 @ c" "d2 \<in> lang (Lit ''.'')" "c \<in> ?P"
    by (rule concE)
  from 2 4 have d: "d1 = ''.''" "d2 = ''.''" by (simp_all only: lang_Lit singletonD)
  have s: "s = a @ CHR ''.'' # b @ CHR ''.'' # c"
    by (simp add: 1 2 3 4 d)
  have P: "w \<noteq> [] \<and> CHR ''.'' \<notin> set w" if "w \<in> ?P" for w
    using that jwt_class_no_dot [of w] by (simp add: jwt_class_def lang_Plus_Cls)
  from P [OF 1(2)] P [OF 3(2)] P [OF 4(3)] s show ?thesis by blast
qed

lemma accessJWTRegex_split:
  assumes "regex_test accessJWTRegex s"
  shows "\<exists>a b c. str_split CHR ''.'' s = [a, b, c] \<and> a \<noteq> [] \<and> b \<noteq> [] \<and> c \<noteq> []"
proof -
  from accessJWTRegex_parts [OF assms] obtain a b c where
    s: "s = a @ CHR ''.'' # b @ CHR ''.'' # c" and ne: "a \<noteq> []" "b \<noteq> []" "c \<noteq> []"
    and nd: "CHR ''.'' \<notin> set a" "CHR ''.'' \<notin> set b" "CHR ''.'' \<notin> set c"
    by blast
  have "str_split CHR ''.'' s = [a, b, c]"
    unfolding s by (simp add: str_split_append str_split_no_sep nd)
  with ne show ?thesis by blast
qed

section \<open>The example runtime, evaluated\<close>

lemma regex_test_Rep_Cls:
  "regex_test (Rep n (Cls rs)) s \<longleftrightarrow> length s = n \<and> list_all (in_cls rs) s"
  by (simp add: regex_test_lang lang_Rep_Cls)

lemma ex_extract:
  "extractJWTFromRequest (ex_request (Some ''hdr.pay.sig'')) = Inr ''hdr.pay.sig''"
  by (simp add: extractJWTFromRequest_def ex_request_def AccessJWT_parse_def bindE_def
      z_string_def z_regex_def accessJWTRegex_def jwt_class_def Plus_def in_cls_def)

lemma ex_kid_parse: "AccessKid_parse (Some (JStr ex_kid)) = Inr ex_kid"
  by (simp add: AccessKid_parse_def bindE_def z_string_def z_regex_def regex_test_Rep_Cls
      hex_class_def ex_kid_def in_cls_def del: regex_test.simps)

lemma ex_aud_parse: "AccessAudience_parse (Some (JStr ex_aud)) = Inr ex_aud"
  by (simp add: AccessAudience_parse_def bindE_def z_string_def z_regex_def regex_test_Rep_Cls
      hex_class_def ex_aud_def in_cls_def del: regex_test.simps)

lemma ex_other_aud_parse: "AccessAudience_parse (Some (JStr ex_other_aud)) = Inr ex_other_aud"
  by (simp add: AccessAudience_parse_def bindE_def z_string_def z_regex_def regex_test_Rep_Cls
      hex_class_def ex_other_aud_def in_cls_def del: regex_test.simps)

lemma ex_domain_parse: "AccessTeamDomain_parse (Some (JStr ex_domain)) = Inr ex_domain"
  by (simp add: AccessTeamDomain_parse_def bindE_def z_string_def z_regex_def
      team_class_def ex_domain_def Plus_def in_cls_def)

lemma ex_header_parse:
  "AccessHeader_parse (Some ex_header) = Inr \<lparr>hdr_kid = ex_kid, hdr_alg = ''RS256'', hdr_typ = Some ''JWT''\<rparr>"
  by (simp add: AccessHeader_parse_def ex_header_def z_object_def bindE_def ex_kid_parse
      AccessAlgorithm_parse_def z_literal_def z_optional_def)

lemma ex_key_parse: "AccessKey_parse (Some (ex_key ex_kid)) = Inr ex_access_key"
  by (simp add: AccessKey_parse_def ex_key_def z_object_def bindE_def ex_kid_parse
      AccessAlgorithm_parse_def z_literal_def z_string_def z_min_def ex_access_key_def)

lemma ex_cert_parse: "PublicCERT_parse (Some ex_cert) = Inr ex_public_cert"
  by (simp add: PublicCERT_parse_def ex_cert_def z_object_def bindE_def ex_kid_parse
      z_string_def z_min_def z_refine_def ex_public_cert_def)

lemma ex_certs_parse:
  "AccessCertsResponse_parse (Some (ex_certs [ex_key ex_kid] [ex_cert])) =
     Inr \<lparr>keys = [ex_access_key], public_cert = ex_public_cert, public_certs = [ex_public_cert]\<rparr>"
  by (simp add: AccessCertsResponse_parse_def ex_certs_def z_object_def z_array_min_def
      z_array_def bindE_def ex_key_parse ex_cert_parse)

lemma ex_user_parse:
  assumes "AccessTeamDomain_parse (Some (JStr issuer)) = Inr issuer"
  shows "UserAccessPayload_parse (ex_platform h p c n)
     (Some (ex_user_payload issuer [JStr ex_aud, JStr ex_other_aud] ex nb)) =
   (if 1 \<le> ex \<and> 1 \<le> nb then Inr (ex_user_payloadObj issuer [ex_aud, ex_other_aud] ex nb)
    else Inl ZodError)"
  by (simp add: UserAccessPayload_parse_def ex_user_payload_def z_object_def bindE_def
      z_enum_def z_number_min_def assms z_array_def ex_aud_parse ex_other_aud_parse
      z_string_def z_min_def z_refine_def z_length_def ex_platform_def ex_user_payloadObj_def)

lemma ex_common_name:
  "regex_test (Seq (Rep 32 hex_class) (Lit ''.access'')) ''0123456789abcdef0123456789abcdef.access''"
  by code_simp

lemma ex_service_parse:
  "ServiceAuthAccessPayload_parse (Some (ex_service_payload ex_aud ex [(''nbf'', JNum nb)])) =
   (if 1 \<le> ex then Inr (ex_service_payloadObj ex_aud ex) else Inl ZodError)"
  by (simp add: ServiceAuthAccessPayload_parse_def ex_service_payload_def z_object_def bindE_def
      z_enum_def z_number_min_def ex_domain_parse ex_aud_parse z_undefined_def
      z_string_def z_regex_def z_literal_def ex_service_payloadObj_def ex_common_name
      del: regex_test.simps Lit.simps)

lemma char_of_of_char_map: "map char_of (map (of_char :: char \<Rightarrow> nat) s) = s"
  by (induction s) simp_all

lemma ex_decode_any:
  "decode_segment (ex_platform h p c n) s =
     (case [''hdr'' \<mapsto> h, ''pay'' \<mapsto> p, ''certs'' \<mapsto> c]
             (filter (\<lambda>c. \<not> is_space c)
                (map (\<lambda>c. if c = CHR ''_'' then CHR ''/'' else c)
                   (map (\<lambda>c. if c = CHR ''-'' then CHR ''+'' else c) s))) of
        None \<Rightarrow> Inl SyntaxError | Some j \<Rightarrow> Inr j)"
  unfolding decode_segment_def base64URLDecode_def ex_platform_def bindE_def Let_def
  by (simp add: char_of_of_char_map del: map_map)

lemma ex_decode_segment:
  "decode_segment (ex_platform h p c n) ''hdr'' = Inr h"
  "decode_segment (ex_platform h p c n) ''pay'' = Inr p"
  by (simp_all add: ex_decode_any is_space_def)

lemma ex_sig:
  "base64URLDecode (ex_platform h p c n) ''sig'' = Inr [115, 105, 103]"
  by (simp add: base64URLDecode_def ex_platform_def is_space_def)

lemma ex_reaches:
  assumes "AccessPayload_parse (ex_platform ex_header p (ex_certs [ex_key ex_kid] [ex_cert]) n)
             (Some p) = Inr payloadObj"
  shows "reaches_claim_checks (ex_platform ex_header p (ex_certs [ex_key ex_kid] [ex_cert]) n)
           (ex_request (Some ''hdr.pay.sig'')) ex_domain (ex_run payloadObj)"
  unfolding reaches_claim_checks_def
  by (simp add: ex_run_def ex_extract ex_decode_segment bindE_def ex_header_parse assms
      ex_certs_parse)
    (simp add: ex_platform_def certs_URL_def ex_domain_def Response_json_def ex_certs_parse
      ex_access_key_def)

section \<open>Stages of \<open>validateAccessJWT\<close>\<close>

lemma extract_cases:
  "extractJWTFromRequest req =
     (case headers_get req ''Cf-Access-Jwt-Assertion'' of
        None \<Rightarrow> Inl ZodError
      | Some s \<Rightarrow> if regex_test accessJWTRegex s then Inr s else Inl ZodError)"
  by (simp add: extractJWTFromRequest_def AccessJWT_parse_def bindE_def z_string_def z_regex_def
      split: option.splits)

lemma extract_Inr_regex:
  "extractJWTFromRequest req = Inr jwt \<Longrightarrow> regex_test accessJWTRegex jwt"
  by (auto simp: extract_cases split: option.splits if_splits)

lemma extract_Inl: "extractJWTFromRequest req = Inl e \<Longrightarrow> e = ZodError"
  by (auto simp: extract_cases split: option.splits if_splits)

lemma extract_three:
  assumes "extractJWTFromRequest req = Inr jwt"
  shows "length (str_split CHR ''.'' jwt) = 3"
  using accessJWTRegex_split [OF extract_Inr_regex [OF assms]] by auto

lemma validate_no_jwt:
  "extractJWTFromRequest req = Inl e \<Longrightarrow> validateAccessJWT P req d a = ([], Inl e)"
  by (simp add: validateAccessJWT_def bindIO_def lift_def)

lemma validate_prefix:
  assumes "reaches_claim_checks P req d r"
  shows "validateAccessJWT P req d a =
    (let payloadObj = run_payloadObj r; now = unroundedSecondsSinceEpoch P in
     if iss payloadObj \<noteq> origin (run_certsURL r)
       then (trace_to_claims r, Inl (Error ''JWT issuer is incorrect.''))
     else if \<not> includesAud payloadObj a
       then (trace_to_claims r, Inl (Error ''JWT audience is incorrect.''))
     else if of_int \<lfloor>now\<rfloor> \<ge> exp' payloadObj
       then (trace_to_claims r, Inl (Error ''JWT has expired.''))
     else if not_yet_valid payloadObj now
       then (trace_to_claims r, Inl (Error ''JWT is not yet valid.''))
     else (case base64URLDecode P (run_signature r) of
             Inl e \<Rightarrow> (trace_to_claims r, Inl e)
           | Inr sg \<Rightarrow>
               (trace_to_claims r @ [Verify (run_key r) sg (signed_data r)],
                if crypto_subtle_verify P (run_key r) sg (signed_data r)
                then Inr (run_jwt r, payloadObj)
                else Inl (Error ''Could not verify JWT.''))))"
  using assms unfolding reaches_claim_checks_def
  by (simp add: validateAccessJWT_def bindIO_def lift_def throw_def do_fetch_def do_importKey_def
      do_verify_def trace_to_claims_def signed_data_def Let_def split: sum.splits)

lemma bindE_not_Error:
  "m \<noteq> Inl (Error msg) \<Longrightarrow> (\<And>x. f x \<noteq> Inl (Error msg)) \<Longrightarrow> bindE m f \<noteq> Inl (Error msg)"
  by (cases m) (auto simp: bindE_def)

lemma z_prims_not_Error:
  "z_string v \<noteq> Inl (Error msg)"
  "z_regex r s \<noteq> Inl (Error msg)"
  "z_min n s \<noteq> Inl (Error msg)"
  "z_length n s \<noteq> Inl (Error msg)"
  "z_refine g s \<noteq> Inl (Error msg)"
  "z_literal l v \<noteq> Inl (Error msg)"
  "z_enum ls v \<noteq> Inl (Error msg)"
  "z_undefined v \<noteq> Inl (Error msg)"
  "z_number_min q v \<noteq> Inl (Error msg)"
  "z_object v \<noteq> Inl (Error msg)"
  by (auto simp: z_string_def z_regex_def z_min_def z_length_def z_refine_def z_literal_def
      z_enum_def z_undefined_def z_number_min_def z_object_def
      split: option.splits json.splits)

lemma z_optional_not_Error:
  "(\<And>x. f x \<noteq> Inl (Error msg)) \<Longrightarrow> z_optional f v \<noteq> Inl (Error msg)"
  by (cases v) (simp_all add: z_optional_def bindE_not_Error)

lemma z_each_not_Error:
  "(\<And>x. f x \<noteq> Inl (Error msg)) \<Longrightarrow> z_each f xs \<noteq> Inl (Error msg)"
  by (induction xs) (simp_all add: bindE_not_Error)

lemma z_array_not_Error:
  "(\<And>x. f x \<noteq> Inl (Error msg)) \<Longrightarrow> z_array f v \<noteq> Inl (Error msg)"
  by (auto simp: z_array_def z_each_not_Error split: option.splits json.splits)

lemma z_array_min_not_Error:
  "(\<And>x. f x \<noteq> Inl (Error msg)) \<Longrightarrow> z_array_min n f v \<noteq> Inl (Error msg)"
  unfolding z_array_min_def by (rule bindE_not_Error) (simp_all add: z_array_not_Error)

lemma schemas_not_Error:
  "AccessJWT_parse v \<noteq> Inl (Error msg)"
  "AccessTeam_parse v \<noteq> Inl (Error msg)"
  "AccessTeamDomain_parse v \<noteq> Inl (Error msg)"
  "AccessKid_parse v \<noteq> Inl (Error msg)"
  "AccessAudience_parse v \<noteq> Inl (Error msg)"
  "AccessAlgorithm_parse v \<noteq> Inl (Error msg)"
  unfolding AccessJWT_parse_def AccessTeam_parse_def AccessTeamDomain_parse_def
    AccessKid_parse_def AccessAudience_parse_def AccessAlgorithm_parse_def
  by (rule bindE_not_Error z_prims_not_Error)+

lemma AccessHeader_parse_not_Error: "AccessHeader_parse v \<noteq> Inl (Error msg)"
  unfolding AccessHeader_parse_def
  by (rule bindE_not_Error z_prims_not_Error schemas_not_Error z_optional_not_Error | simp)+

lemma AccessKey_parse_not_Error: "AccessKey_parse v \<noteq> Inl (Error msg)"
  unfolding AccessKey_parse_def
  by (rule bindE_not_Error z_prims_not_Error schemas_not_Error | simp)+

lemma PublicCERT_parse_not_Error: "PublicCERT_parse v \<noteq> Inl (Error msg)"
  unfolding PublicCERT_parse_def
  by (rule bindE_not_Error z_prims_not_Error schemas_not_Error | simp)+

lemma AccessCertsResponse_parse_not_Error: "AccessCertsResponse_parse v \<noteq> Inl (Error msg)"
  unfolding AccessCertsResponse_parse_def
  by (rule bindE_not_Error z_prims_not_Error z_array_min_not_Error AccessKey_parse_not_Error
      PublicCERT_parse_not_Error | simp)+

lemma AccessPayload_parse_not_Error: "AccessPayload_parse P v \<noteq> Inl (Error msg)"
  by (simp add: AccessPayload_parse_def split: sum.splits)

lemma base64URLDecode_not_Error: "base64URLDecode P s \<noteq> Inl (Error msg)"
  by (simp add: base64URLDecode_def Let_def split: option.splits)

lemma decode_segment_not_Error: "decode_segment P s \<noteq> Inl (Error msg)"
  unfolding decode_segment_def
  by (rule bindE_not_Error base64URLDecode_not_Error)+ (simp split: option.splits)

lemma Response_json_not_Error: "Response_json P resp \<noteq> Inl (Error msg)"
  by (simp add: Response_json_def split: option.splits)

lemma steps_not_Error:
  "bindE (decode_segment P s) (\<lambda>j. AccessHeader_parse (Some j)) \<noteq> Inl (Error msg)"
  "bindE (decode_segment P s) (\<lambda>j. AccessPayload_parse P (Some j)) \<noteq> Inl (Error msg)"
  "bindE (Response_json P resp) (\<lambda>j. AccessCertsResponse_parse (Some j)) \<noteq> Inl (Error msg)"
  "certs_URL P d \<noteq> Inl (Error msg)"
  "extractJWTFromRequest req \<noteq> Inl (Error msg)"
  by (simp_all add: bindE_not_Error decode_segment_not_Error AccessHeader_parse_not_Error
      AccessPayload_parse_not_Error Response_json_not_Error AccessCertsResponse_parse_not_Error
      certs_URL_def extractJWTFromRequest_def schemas_not_Error split: option.splits)

lemmas validate_defs = validateAccessJWT_def bindIO_def lift_def throw_def do_fetch_def
  do_importKey_def do_verify_def Let_def

lemma validate_Inr_reaches:
  assumes "validateAccessJWT P req d a = (t, Inr res)"
  shows "\<exists>r. reaches_claim_checks P req d r \<and> res = (run_jwt r, run_payloadObj r)"
proof -
  obtain jwt where 1: "extractJWTFromRequest req = Inr jwt"
    using assms by (cases "extractJWTFromRequest req") (simp_all add: validate_no_jwt)
  obtain h p s where 2: "str_split CHR ''.'' jwt = [h, p, s]"
    using accessJWTRegex_split [OF extract_Inr_regex [OF 1]] by blast
  obtain hdr where 3: "bindE (decode_segment P h) (\<lambda>j. AccessHeader_parse (Some j)) = Inr hdr"
    using assms 1 2
    by (cases "bindE (decode_segment P h) (\<lambda>j. AccessHeader_parse (Some j))")
      (simp_all add: validate_defs)
  obtain u where 4: "certs_URL P d = Inr u"
    using assms 1 2 3 by (cases "certs_URL P d") (simp_all add: validate_defs)
  obtain resp where 5: "fetch P (href u) = Some resp"
    using assms 1 2 3 4 by (cases "fetch P (href u)") (simp_all add: validate_defs)
  obtain certs where 6:
    "bindE (Response_json P resp) (\<lambda>j. AccessCertsResponse_parse (Some j)) = Inr certs"
    using assms 1 2 3 4 5
    by (cases "bindE (Response_json P resp) (\<lambda>j. AccessCertsResponse_parse (Some j))")
      (simp_all add: validate_defs)
  obtain jwk where 7: "find (\<lambda>key. key_kid key = hdr_kid hdr) (keys certs) = Some jwk"
    using assms 1 2 3 4 5 6
    by (cases "find (\<lambda>key. key_kid key = hdr_kid hdr) (keys certs)")
      (simp_all add: validate_defs)
  obtain key where 8: "crypto_subtle_importKey P jwk = Some key"
    using assms 1 2 3 4 5 6 7
    by (cases "crypto_subtle_importKey P jwk") (simp_all add: validate_defs)
  obtain pl where 9:
    "bindE (decode_segment P p) (\<lambda>j. AccessPayload_parse P (Some j)) = Inr pl"
    using assms 1 2 3 4 5 6 7 8
    by (cases "bindE (decode_segment P p) (\<lambda>j. AccessPayload_parse P (Some j))")
      (simp_all add: validate_defs)
  let ?r = "\<lparr>run_jwt = jwt, run_header = h, run_payload = p, run_signature = s, run_hdr = hdr,
             run_certsURL = u, run_certsResponse = resp, run_certs = certs, run_jwk = jwk,
             run_key = key, run_payloadObj = pl\<rparr>"
  have r: "reaches_claim_checks P req d ?r"
    by (simp add: reaches_claim_checks_def 1 2 3 4 5 6 7 8 9)
  have "res = (jwt, pl)"
    using assms validate_prefix [OF r, of a]
    by (auto simp: Let_def split: if_splits sum.splits)
  with r show ?thesis by (intro exI [of _ ?r]) simp
qed

lemma validate_not_three_parts:
  "snd (validateAccessJWT P req d a) \<noteq> Inl (Error ''JWT does not have three parts.'')"
proof (cases "extractJWTFromRequest req")
  case (Inl e)
  then show ?thesis using extract_Inl [OF Inl] by (simp add: validate_no_jwt)
next
  case (Inr jwt)
  from accessJWTRegex_split [OF extract_Inr_regex [OF Inr]]
  obtain h p s where "str_split CHR ''.'' jwt = [h, p, s]" by blast
  with Inr show ?thesis
    by (auto simp: validate_defs steps_not_Error base64URLDecode_not_Error
        split: sum.splits option.splits prod.splits)
qed

lemma validate_fetch_url:
  assumes "Fetch url \<in> set (fst (validateAccessJWT P req d a))"
  shows "\<exists>u. certs_URL P d = Inr u \<and> url = href u"
proof (cases "extractJWTFromRequest req")
  case (Inl e)
  with assms show ?thesis by (simp add: validate_no_jwt)
next
  case (Inr jwt)
  from accessJWTRegex_split [OF extract_Inr_regex [OF Inr]]
  obtain h p s where "str_split CHR ''.'' jwt = [h, p, s]" by blast
  with Inr assms show ?thesis
    by (auto simp: validate_defs split: sum.splits option.splits prod.splits if_splits)
qed

section \<open>The middleware and the payload schemas\<close>

lemma bindE_Inr_iff: "bindE m f = Inr y \<longleftrightarrow> (\<exists>x. m = Inr x \<and> f x = Inr y)"
  by (cases m) (simp_all add: bindE_def)

lemma middleware_on_failure:
  assumes "validation_fails P (req_raw c) d a"
  shows "snd (middleware d a P c next) = Inl (newHTTPException 401 ''unauthorized'')"
proof (cases "hasValidJWT (req_raw c)")
  case False
  then show ?thesis by (simp add: middleware_def throw_def)
next
  case True
  with assms obtain t e where "validateAccessJWT P (req_raw c) d a = (t, Inl e)"
    unfolding validation_fails_def by (metis prod.collapse sum.collapse(1))
  with True show ?thesis
    by (simp add: middleware_def bindIO_def catchIO_def)
qed

lemma middleware_on_success:
  assumes "\<not> validation_fails P (req_raw c) d a"
  shows "snd (middleware d a P c next) = snd next"
proof -
  from assms have v: "hasValidJWT (req_raw c)"
    and "\<not> isl (snd (validateAccessJWT P (req_raw c) d a))"
    by (simp_all add: validation_fails_def)
  then obtain t res where "validateAccessJWT P (req_raw c) d a = (t, Inr res)"
    by (metis prod.collapse sum.collapse(2))
  with v show ?thesis
    by (cases "next") (simp add: middleware_def bindIO_def catchIO_def lift_def)
qed

lemma z_each_audience:
  "z_each AccessAudience_parse js = Inr xs \<Longrightarrow> js = map JStr xs"
proof (induction js arbitrary: xs)
  case Nil
  then show ?case by simp
next
  case (Cons j js)
  then obtain y ys where y: "AccessAudience_parse (Some j) = Inr y"
      and ys: "z_each AccessAudience_parse js = Inr ys" and xs: "xs = y # ys"
    by (auto simp: bindE_Inr_iff)
  from y have "j = JStr y"
    by (auto simp: AccessAudience_parse_def bindE_Inr_iff z_string_def z_regex_def
        split: json.splits if_splits)
  with Cons.IH [OF ys] xs show ?case by simp
qed

lemma User_parse_facts:
  assumes "UserAccessPayload_parse P v = Inr pl"
  shows "\<exists>fs xs n nb. v = Some (JObj fs) \<and> map_of fs ''aud'' = Some (JArr (map JStr xs)) \<and>
           aud pl = AudArray xs \<and> identity_nonce pl = Some n \<and> n \<noteq> [] \<and> nbf pl = Some nb \<and>
           map_of fs ''nbf'' = Some (JNum nb) \<and> map_of fs ''exp'' = Some (JNum (exp' pl))"
proof -
  from assms obtain obj where o: "z_object v = Inr obj"
    unfolding UserAccessPayload_parse_def bindE_Inr_iff by blast
  then obtain fs where fs: "v = Some (JObj fs)" "obj = map_of fs"
    by (auto simp: z_object_def split: option.splits json.splits)
  from assms o obtain ex au nb nonce where
      "z_number_min 1 (obj ''exp'') = Inr ex"
      "z_array AccessAudience_parse (obj ''aud'') = Inr au"
      "z_number_min 1 (obj ''nbf'') = Inr nb"
      "bindE (z_string (obj ''identity_nonce'')) (z_min 1) = Inr nonce"
      "aud pl = AudArray au" "identity_nonce pl = Some nonce" "nbf pl = Some nb" "exp' pl = ex"
    unfolding UserAccessPayload_parse_def bindE_Inr_iff by auto
  moreover from this have "nonce \<noteq> []"
    by (auto simp: bindE_Inr_iff z_min_def split: if_splits)
  moreover from calculation have "obj ''aud'' = Some (JArr (map JStr au))"
    by (auto simp: z_array_def dest: z_each_audience split: option.splits json.splits)
  moreover from calculation have "obj ''nbf'' = Some (JNum nb)" "obj ''exp'' = Some (JNum ex)"
    by (auto simp: z_number_min_def split: option.splits json.splits if_splits)
  ultimately show ?thesis using fs by auto
qed

lemma Service_parse_facts:
  assumes "ServiceAuthAccessPayload_parse v = Inr pl"
  shows "\<exists>fs s. v = Some (JObj fs) \<and> map_of fs ''aud'' = Some (JStr s) \<and>
           aud pl = AudString s \<and> identity_nonce pl = None \<and> nbf pl = None \<and>
           map_of fs ''identity_nonce'' = None \<and> map_of fs ''exp'' = Some (JNum (exp' pl))"
proof -
  from assms obtain obj where o: "z_object v = Inr obj"
    unfolding ServiceAuthAccessPayload_parse_def bindE_Inr_iff by blast
  then obtain fs where fs: "v = Some (JObj fs)" "obj = map_of fs"
    by (auto simp: z_object_def split: option.splits json.splits)
  from assms o obtain ex au where
      "z_number_min 1 (obj ''exp'') = Inr ex"
      "AccessAudience_parse (obj ''aud'') = Inr au"
      "z_undefined (obj ''identity_nonce'') = Inr ()"
      "aud pl = AudString au" "identity_nonce pl = None" "nbf pl = None" "exp' pl = ex"
    unfolding ServiceAuthAccessPayload_parse_def bindE_Inr_iff by auto
  moreover from this have "obj ''aud'' = Some (JStr au)"
    by (auto simp: AccessAudience_parse_def bindE_Inr_iff z_string_def z_regex_def
        split: option.splits json.splits if_splits)
  moreover from calculation have "obj ''identity_nonce'' = None" "obj ''exp'' = Some (JNum ex)"
    by (auto simp: z_undefined_def z_number_min_def split: option.splits json.splits if_splits)
  ultimately show ?thesis using fs by auto
qed

lemma AccessPayload_parse_variants:
  assumes "AccessPayload_parse P v = Inr pl"
  shows "UserAccessPayload_parse P v = Inr pl \<or>
         (isl (UserAccessPayload_parse P v) \<and> ServiceAuthAccessPayload_parse v = Inr pl)"
  using assms by (auto simp: AccessPayload_parse_def split: sum.splits)

lemma Service_then_not_User:
  assumes "ServiceAuthAccessPayload_parse v = Inr pl"
  shows "isl (UserAccessPayload_parse P v)"
proof (cases "UserAccessPayload_parse P v")
  case (Inl e)
  then show ?thesis by simp
next
  case (Inr pl')
  from User_parse_facts [OF Inr] Service_parse_facts [OF assms]
  obtain fs n where "v = Some (JObj fs)" "map_of fs ''identity_nonce'' = None"
    and u: "UserAccessPayload_parse P (Some (JObj fs)) = Inr pl'" using Inr by auto
  then have False
    by (auto simp: UserAccessPayload_parse_def bindE_Inr_iff z_object_def z_string_def)
  then show ?thesis ..
qed

lemma Service_parse_union:
  "ServiceAuthAccessPayload_parse v = Inr pl \<Longrightarrow> AccessPayload_parse P v = Inr pl"
  using Service_then_not_User [of v pl P]
  by (auto simp: AccessPayload_parse_def split: sum.splits)

section \<open>Runs of the example\<close>

lemma ex_user_union:
  assumes "AccessTeamDomain_parse (Some (JStr issuer)) = Inr issuer" and "1 \<le> ex" and "1 \<le> nb"
  shows "AccessPayload_parse (ex_platform h p c n)
     (Some (ex_user_payload issuer [JStr ex_aud, JStr ex_other_aud] ex nb)) =
   Inr (ex_user_payloadObj issuer [ex_aud, ex_other_aud] ex nb)"
  by (simp add: AccessPayload_parse_def ex_user_parse assms)

lemma ex_service_union:
  assumes "1 \<le> ex"
  shows "AccessPayload_parse P (Some (ex_service_payload ex_aud ex [(''nbf'', JNum nb)])) =
   Inr (ex_service_payloadObj ex_aud ex)"
  by (rule Service_parse_union) (simp add: ex_service_parse assms)

lemma ex_reaches_user:
  assumes "AccessTeamDomain_parse (Some (JStr issuer)) = Inr issuer" and "1 \<le> ex" and "1 \<le> nb"
  shows "reaches_claim_checks
     (ex_platform ex_header (ex_user_payload issuer [JStr ex_aud, JStr ex_other_aud] ex nb)
        (ex_certs [ex_key ex_kid] [ex_cert]) n)
     (ex_request (Some ''hdr.pay.sig'')) ex_domain
     (ex_run (ex_user_payloadObj issuer [ex_aud, ex_other_aud] ex nb))"
  by (rule ex_reaches) (rule ex_user_union [OF assms])

lemma ex_reaches_service:
  assumes "1 \<le> ex"
  shows "reaches_claim_checks
     (ex_platform ex_header (ex_service_payload ex_aud ex [(''nbf'', JNum nb)])
        (ex_certs [ex_key ex_kid] [ex_cert]) n)
     (ex_request (Some ''hdr.pay.sig'')) ex_domain
     (ex_run (ex_service_payloadObj ex_aud ex))"
  by (rule ex_reaches) (rule ex_service_union [OF assms])

lemma ex_now: "unroundedSecondsSinceEpoch (ex_platform h p c n) = of_int n / 1000"
  by (simp add: unroundedSecondsSinceEpoch_def ex_platform_def)

lemma ex_run_simps:
  "run_payloadObj (ex_run pl) = pl"
  "origin (run_certsURL (ex_run pl)) = ex_domain"
  "run_signature (ex_run pl) = ''sig''"
  "run_jwt (ex_run pl) = ''hdr.pay.sig''"
  "run_key (ex_run pl) = CryptoKey ex_access_key"
  "trace_to_claims (ex_run pl) =
     [Fetch ''https://my-team.cloudflareaccess.com/cdn-cgi/access/certs'', ImportKey ex_access_key]"
  by (simp_all add: ex_run_def trace_to_claims_def)

lemma ex_verify:
  "crypto_subtle_verify (ex_platform h p c n) k [115, 105, 103] dat"
  by (simp add: ex_platform_def)

lemma ex_payloadObj_simps:
  "iss (ex_user_payloadObj issuer auds ex nb) = issuer"
  "aud (ex_user_payloadObj issuer auds ex nb) = AudArray auds"
  "exp' (ex_user_payloadObj issuer auds ex nb) = ex"
  "nbf (ex_user_payloadObj issuer auds ex nb) = Some nb"
  "identity_nonce (ex_user_payloadObj issuer auds ex nb) = Some ''nonce''"
  "iss (ex_service_payloadObj a ex) = ex_domain"
  "aud (ex_service_payloadObj a ex) = AudString a"
  "exp' (ex_service_payloadObj a ex) = ex"
  "nbf (ex_service_payloadObj a ex) = None"
  "identity_nonce (ex_service_payloadObj a ex) = None"
  by (simp_all add: ex_user_payloadObj_def ex_service_payloadObj_def)

text \<open>The end-to-end run of the example: a user token with \<open>exp\<close> an hour ahead and
  \<open>nbf\<close> a minute back is accepted.\<close>

lemma ex_user_accepted:
  "validateAccessJWT
     (ex_platform ex_header
        (ex_user_payload ex_domain [JStr ex_aud, JStr ex_other_aud] 1700003600 1699999940)
        (ex_certs [ex_key ex_kid] [ex_cert]) 1700000000500)
     (ex_request (Some ''hdr.pay.sig'')) ex_domain ex_aud =
   ([Fetch ''https://my-team.cloudflareaccess.com/cdn-cgi/access/certs'', ImportKey ex_access_key,
     Verify (CryptoKey ex_access_key) [115, 105, 103]
       (signed_data (ex_run (ex_user_payloadObj ex_domain [ex_aud, ex_other_aud]
                               1700003600 1699999940)))],
    Inr (''hdr.pay.sig'',
         ex_user_payloadObj ex_domain [ex_aud, ex_other_aud] 1700003600 1699999940))"
  by (subst validate_prefix [OF ex_reaches_user [OF ex_domain_parse]])
    (simp_all add: ex_run_simps ex_payloadObj_simps ex_now includesAud_def not_yet_valid_def
      ex_sig ex_verify Let_def)

lemma ex_user_expired:
  "validateAccessJWT
     (ex_platform ex_header
        (ex_user_payload ex_domain [JStr ex_aud, JStr ex_other_aud] 1700000000 1699999940)
        (ex_certs [ex_key ex_kid] [ex_cert]) 1700000000500)
     (ex_request (Some ''hdr.pay.sig'')) ex_domain ex_aud =
   ([Fetch ''https://my-team.cloudflareaccess.com/cdn-cgi/access/certs'', ImportKey ex_access_key],
    Inl (Error ''JWT has expired.''))"
  by (subst validate_prefix [OF ex_reaches_user [OF ex_domain_parse]])
    (simp_all add: ex_run_simps ex_payloadObj_simps ex_now includesAud_def not_yet_valid_def
      Let_def)

section \<open>The claims\<close>

text \<open>
  C10: every string the pattern of \<open>AccessJWT\<close> accepts splits on \<open>.\<close> into exactly three
  non-empty parts, so \<open>validateAccessJWT\<close> never throws
  \<open>JWT does not have three parts.\<close>
\<close>

theorem C10_three_parts_check_unreachable:
  "(\<forall>jwt. AccessJWT_parse v = Inr jwt \<longrightarrow>
      (\<exists>a b c. str_split CHR ''.'' jwt = [a, b, c] \<and> a \<noteq> [] \<and> b \<noteq> [] \<and> c \<noteq> [])) \<and>
   snd (validateAccessJWT P request accessTeamDomain accessAud)
     \<noteq> Inl (Error ''JWT does not have three parts.'')"
proof (intro conjI allI impI)
  fix jwt
  assume "AccessJWT_parse v = Inr jwt"
  then have "regex_test accessJWTRegex jwt"
    by (auto simp: AccessJWT_parse_def bindE_def z_string_def z_regex_def
        split: option.splits json.splits if_splits)
  then show "\<exists>a b c. str_split CHR ''.'' jwt = [a, b, c] \<and> a \<noteq> [] \<and> b \<noteq> [] \<and> c \<noteq> []"
    by (rule accessJWTRegex_split)
next
  show "snd (validateAccessJWT P request accessTeamDomain accessAud)
     \<noteq> Inl (Error ''JWT does not have three parts.'')"
    by (rule validate_not_three_parts)
qed

theorem C10_witness:
  "AccessJWT_parse (Some (JStr ''hdr.pay.sig'')) = Inr ''hdr.pay.sig'' \<and>
   str_split CHR ''.'' ''hdr.pay.sig'' = [''hdr'', ''pay'', ''sig''] \<and>
   (\<exists>a b c. str_split CHR ''.'' ''hdr.pay.sig'' = [a, b, c] \<and> a \<noteq> [] \<and> b \<noteq> [] \<and> c \<noteq> [])"
proof -
  have h: "AccessJWT_parse (Some (JStr ''hdr.pay.sig'')) = Inr ''hdr.pay.sig''"
    using ex_extract by (simp add: extractJWTFromRequest_def ex_request_def)
  from C10_three_parts_check_unreachable [of "Some (JStr ''hdr.pay.sig'')"] h
  show ?thesis by simp
qed

text \<open>
  C4: a request without the header, or whose token does not split on \<open>.\<close> into exactly
  three segments, fails validation with no call to the outside at all: \<open>fetch\<close> is never
  called, by \<open>validateAccessJWT\<close> or by the middleware, which throws the 401.
\<close>

theorem C4_malformed_token_no_fetch:
  assumes "headers_get (req_raw c) ''Cf-Access-Jwt-Assertion'' = None \<or>
           (\<exists>tok. headers_get (req_raw c) ''Cf-Access-Jwt-Assertion'' = Some tok \<and>
                  length (str_split CHR ''.'' tok) \<noteq> 3)"
  shows "validateAccessJWT P (req_raw c) accessTeamDomain accessAud = ([], Inl ZodError) \<and>
         middleware accessTeamDomain accessAud P c next
           = ([], Inl (newHTTPException 401 ''unauthorized'')) \<and>
         (\<forall>url. Fetch url \<notin> set (fst (validateAccessJWT P (req_raw c) accessTeamDomain accessAud))) \<and>
         (\<forall>url. Fetch url \<notin> set (fst (middleware accessTeamDomain accessAud P c next)))"
proof -
  have "extractJWTFromRequest (req_raw c) = Inl ZodError"
  proof (cases "extractJWTFromRequest (req_raw c)")
    case (Inl e)
    then show ?thesis using extract_Inl by blast
  next
    case (Inr jwt)
    then have "headers_get (req_raw c) ''Cf-Access-Jwt-Assertion'' = Some jwt"
      by (auto simp: extract_cases split: option.splits if_splits)
    with assms extract_three [OF Inr] show ?thesis by simp
  qed
  then show ?thesis
    by (simp add: validate_no_jwt middleware_def hasValidJWT_def throw_def)
qed

theorem C4_witness:
  "length (str_split CHR ''.'' ''hdr.pay'') \<noteq> 3 \<and>
   validateAccessJWT (ex_platform ex_header JNull JNull 0) (ex_request (Some ''hdr.pay''))
     ex_domain ex_aud = ([], Inl ZodError) \<and>
   middleware ex_domain ex_aud (ex_platform ex_header JNull JNull 0)
     (ex_context (Some ''hdr.pay'')) ([], Inr ()) = ([], Inl (HTTPException 401 ''unauthorized'')) \<and>
   middleware ex_domain ex_aud (ex_platform ex_header JNull JNull 0)
     (ex_context None) ([], Inr ()) = ([], Inl (HTTPException 401 ''unauthorized''))"
proof -
  have h: "headers_get (req_raw (ex_context (Some ''hdr.pay''))) ''Cf-Access-Jwt-Assertion'' = Some ''hdr.pay''"
    "headers_get (req_raw (ex_context None)) ''Cf-Access-Jwt-Assertion'' = None"
    "length (str_split CHR ''.'' ''hdr.pay'') \<noteq> 3"
    "req_raw (ex_context (Some ''hdr.pay'')) = ex_request (Some ''hdr.pay'')"
    by (simp_all add: ex_context_def ex_request_def)
  from C4_malformed_token_no_fetch [of "ex_context (Some ''hdr.pay'')"
      "ex_platform ex_header JNull JNull 0" ex_domain ex_aud "([], Inr ())"]
    C4_malformed_token_no_fetch [of "ex_context None"
      "ex_platform ex_header JNull JNull 0" ex_domain ex_aud "([], Inr ())"] h
  show ?thesis by (simp add: newHTTPException_def)
qed

text \<open>
  C3: when the header of the token parses, the key set is fetched and parsed, and no key
  of the set has the \<open>kid\<close> of the header, \<open>validateAccessJWT\<close> throws
  \<open>Could not find matching signing key.\<close>; the only call it has made is the fetch, so
  \<open>crypto.subtle.verify\<close> is never called.
\<close>

theorem C3_no_matching_key:
  assumes "extractJWTFromRequest request = Inr jwt"
    and "str_split CHR ''.'' jwt = [header, payload, signature]"
    and "bindE (decode_segment P header) (\<lambda>j. AccessHeader_parse (Some j)) = Inr hdr"
    and "certs_URL P accessTeamDomain = Inr certsURL"
    and "fetch P (href certsURL) = Some certsResponse"
    and "bindE (Response_json P certsResponse) (\<lambda>j. AccessCertsResponse_parse (Some j))
           = Inr certs"
    and "list_all (\<lambda>key. key_kid key \<noteq> hdr_kid hdr) (keys certs)"
  shows "validateAccessJWT P request accessTeamDomain accessAud =
           ([Fetch (href certsURL)], Inl (Error ''Could not find matching signing key.'')) \<and>
         (\<forall>k sg dat. Verify k sg dat \<notin>
            set (fst (validateAccessJWT P request accessTeamDomain accessAud)))"
proof -
  from assms(7) have "find (\<lambda>key. key_kid key = hdr_kid hdr) (keys certs) = None"
    by (auto simp: find_None_iff list_all_iff)
  with assms(1-6) have
    "validateAccessJWT P request accessTeamDomain accessAud =
       ([Fetch (href certsURL)], Inl (Error ''Could not find matching signing key.''))"
    by (simp add: validate_defs)
  then show ?thesis by simp
qed

lemma ex_key_parse_other:
  "AccessKey_parse (Some (ex_key ex_other_aud)) = Inr (ex_access_key\<lparr>key_kid := ex_other_aud\<rparr>)"
proof -
  have "AccessKid_parse (Some (JStr ex_other_aud)) = Inr ex_other_aud"
    using ex_other_aud_parse by (simp add: AccessKid_parse_def AccessAudience_parse_def)
  then show ?thesis
    by (simp add: AccessKey_parse_def ex_key_def z_object_def bindE_def
      AccessAlgorithm_parse_def z_literal_def z_string_def z_min_def ex_access_key_def)
qed

lemma ex_certs_parse_other:
  "AccessCertsResponse_parse (Some (ex_certs [ex_key ex_other_aud] [ex_cert])) =
     Inr \<lparr>keys = [ex_access_key\<lparr>key_kid := ex_other_aud\<rparr>], public_cert = ex_public_cert,
          public_certs = [ex_public_cert]\<rparr>"
  by (simp add: AccessCertsResponse_parse_def ex_certs_def z_object_def z_array_min_def
      z_array_def bindE_def ex_key_parse_other ex_cert_parse)

theorem C3_witness:
  "validateAccessJWT (ex_platform ex_header JNull (ex_certs [ex_key ex_other_aud] [ex_cert]) 0)
     (ex_request (Some ''hdr.pay.sig'')) ex_domain ex_aud =
   ([Fetch ''https://my-team.cloudflareaccess.com/cdn-cgi/access/certs''],
    Inl (Error ''Could not find matching signing key.''))"
proof -
  let ?P = "ex_platform ex_header JNull (ex_certs [ex_key ex_other_aud] [ex_cert]) 0"
  let ?u = "\<lparr>href = ''https://my-team.cloudflareaccess.com/cdn-cgi/access/certs'',
              origin = ex_domain\<rparr>"
  let ?certs = "\<lparr>keys = [ex_access_key\<lparr>key_kid := ex_other_aud\<rparr>], public_cert = ex_public_cert,
          public_certs = [ex_public_cert]\<rparr>"
  let ?hdr = "\<lparr>hdr_kid = ex_kid, hdr_alg = ''RS256'', hdr_typ = Some ''JWT''\<rparr>"
  have 1: "str_split CHR ''.'' ''hdr.pay.sig'' = [''hdr'', ''pay'', ''sig'']" by simp
  have 2: "bindE (decode_segment ?P ''hdr'') (\<lambda>j. AccessHeader_parse (Some j)) = Inr ?hdr"
    by (simp add: ex_decode_segment bindE_def ex_header_parse)
  have 3: "certs_URL ?P ex_domain = Inr ?u"
    by (simp add: certs_URL_def ex_platform_def ex_domain_def)
  have 4: "fetch ?P (href ?u) = Some \<lparr>status = 200, body = ''certs''\<rparr>"
    by (simp add: ex_platform_def)
  have 5: "bindE (Response_json ?P \<lparr>status = 200, body = ''certs''\<rparr>)
             (\<lambda>j. AccessCertsResponse_parse (Some j)) = Inr ?certs"
    by (simp add: Response_json_def bindE_def ex_certs_parse_other) (simp add: ex_platform_def ex_certs_parse_other)
  have 6: "list_all (\<lambda>key. key_kid key \<noteq> hdr_kid ?hdr) (keys ?certs)"
    by (simp add: ex_kid_def ex_other_aud_def)
  from C3_no_matching_key [OF ex_extract 1 2 3 4 5 6, of ex_aud]
  show ?thesis by simp
qed

lemma z_array_min_Inr_length:
  "z_array_min n f v = Inr ys \<Longrightarrow> n \<le> length ys"
  by (auto simp: z_array_min_def bindE_Inr_iff split: if_splits)

lemma z_array_min_empty: "0 < n \<Longrightarrow> z_array_min n f (Some (JArr [])) = Inl ZodError"
  by (simp add: z_array_min_def z_array_def bindE_def)

lemma certs_parse_nonempty:
  assumes "AccessCertsResponse_parse v = Inr r"
  shows "keys r \<noteq> [] \<and> public_certs r \<noteq> []"
proof -
  from assms obtain ks pcs where
      "z_array_min 1 AccessKey_parse ks = Inr (keys r)"
      "z_array_min 1 PublicCERT_parse pcs = Inr (public_certs r)"
    unfolding AccessCertsResponse_parse_def bindE_Inr_iff by auto
  then show ?thesis by (auto dest!: z_array_min_Inr_length)
qed

lemma certs_parse_empty_arrays:
  assumes "map_of fs ''keys'' = Some (JArr []) \<or> map_of fs ''public_certs'' = Some (JArr [])"
  shows "isl (AccessCertsResponse_parse (Some (JObj fs)))"
proof (cases "AccessCertsResponse_parse (Some (JObj fs))")
  case (Inl e)
  then show ?thesis by simp
next
  case (Inr r)
  then have "z_array_min 1 AccessKey_parse (map_of fs ''keys'') = Inr (keys r)"
      "z_array_min 1 PublicCERT_parse (map_of fs ''public_certs'') = Inr (public_certs r)"
    unfolding AccessCertsResponse_parse_def bindE_Inr_iff z_object_def by auto
  with assms have False by (auto simp: z_array_min_empty)
  then show ?thesis ..
qed

text \<open>
  C9: when the body of the certs response is not JSON, or is JSON whose \<open>keys\<close> array is
  empty, or whose \<open>public_certs\<close> array is empty, or that \<open>AccessCertsResponse\<close> rejects
  for any other reason, \<open>validateAccessJWT\<close> throws on every request and the middleware
  answers 401; and a key set the schema does return has at least one key and at least one
  public certificate.
\<close>

theorem C9_bad_certs_response_fails:
  assumes "certs_URL P accessTeamDomain = Inr certsURL"
    and "fetch P (href certsURL) = Some certsResponse"
    and "JSON_parse P (body certsResponse) = None \<or>
         (\<exists>fs. JSON_parse P (body certsResponse) = Some (JObj fs) \<and>
               (map_of fs ''keys'' = Some (JArr []) \<or>
                map_of fs ''public_certs'' = Some (JArr []))) \<or>
         (\<exists>j. JSON_parse P (body certsResponse) = Some j \<and>
              isl (AccessCertsResponse_parse (Some j)))"
  shows "isl (snd (validateAccessJWT P request accessTeamDomain accessAud)) \<and>
         snd (middleware accessTeamDomain accessAud P c next)
           = Inl (newHTTPException 401 ''unauthorized'') \<and>
         (\<forall>v r. AccessCertsResponse_parse v = Inr r \<longrightarrow> keys r \<noteq> [] \<and> public_certs r \<noteq> [])"
proof -
  from assms(3) have bad:
    "isl (bindE (Response_json P certsResponse) (\<lambda>j. AccessCertsResponse_parse (Some j)))"
    using certs_parse_empty_arrays by (auto simp: Response_json_def bindE_def)
  have fails: "isl (snd (validateAccessJWT P req accessTeamDomain accessAud))" for req
  proof (rule ccontr)
    assume "\<not> isl (snd (validateAccessJWT P req accessTeamDomain accessAud))"
    then obtain t res where "validateAccessJWT P req accessTeamDomain accessAud = (t, Inr res)"
      by (metis prod.collapse sum.collapse(2))
    from validate_Inr_reaches [OF this] obtain r where
      "reaches_claim_checks P req accessTeamDomain r" by blast
    with assms(1,2) have
      "bindE (Response_json P certsResponse) (\<lambda>j. AccessCertsResponse_parse (Some j))
         = Inr (run_certs r)"
      by (auto simp: reaches_claim_checks_def)
    with bad show False by simp
  qed
  then have "validation_fails P (req_raw c) accessTeamDomain accessAud"
    by (simp add: validation_fails_def)
  from middleware_on_failure [OF this] fails certs_parse_nonempty
  show ?thesis by blast
qed

theorem C9_witness:
  "isl (snd (validateAccessJWT (ex_platform ex_header JNull (ex_certs [] [ex_cert]) 0)
      (ex_request (Some ''hdr.pay.sig'')) ex_domain ex_aud)) \<and>
   snd (middleware ex_domain ex_aud (ex_platform ex_header JNull (ex_certs [ex_key ex_kid] []) 0)
      (ex_context (Some ''hdr.pay.sig'')) ([], Inr ())) = Inl (HTTPException 401 ''unauthorized'')"
proof -
  let ?u = "\<lparr>href = ''https://my-team.cloudflareaccess.com/cdn-cgi/access/certs'',
              origin = ex_domain\<rparr>"
  let ?resp = "\<lparr>status = 200, body = ''certs''\<rparr>"
  have 1: "certs_URL (ex_platform h p c n) ex_domain = Inr ?u" for h p c n
    by (simp add: certs_URL_def ex_platform_def ex_domain_def)
  have 2: "fetch (ex_platform h p c n) (href ?u) = Some ?resp" for h p c n
    by (simp add: ex_platform_def)
  have 3: "\<exists>fs. JSON_parse (ex_platform ex_header JNull (ex_certs [] [ex_cert]) 0) (body ?resp)
                  = Some (JObj fs) \<and>
                (map_of fs ''keys'' = Some (JArr []) \<or> map_of fs ''public_certs'' = Some (JArr []))"
    "\<exists>fs. JSON_parse (ex_platform ex_header JNull (ex_certs [ex_key ex_kid] []) 0) (body ?resp)
                  = Some (JObj fs) \<and>
                (map_of fs ''keys'' = Some (JArr []) \<or> map_of fs ''public_certs'' = Some (JArr []))"
    by (simp_all add: ex_certs_def ex_platform_def)
  from C9_bad_certs_response_fails [OF 1 2 disjI2 [OF disjI1], OF 3(1),
      of "ex_request (Some ''hdr.pay.sig'')" ex_aud]
    C9_bad_certs_response_fails [OF 1 2 disjI2 [OF disjI1], OF 3(2),
      of _ ex_aud "ex_context (Some ''hdr.pay.sig'')" "([], Inr ())"]
  show ?thesis unfolding newHTTPException_def by blast
qed

text \<open>
  C1: whenever validation of a request fails, for whatever reason, the middleware throws
  the exception \<open>newHTTPException(401, 'unauthorized')\<close>, the HTTP exception with status
  401 and message \<open>unauthorized\<close>; so any two failing requests, under any runtimes and
  configurations, give the caller the same result.
\<close>

theorem C1_single_unauthorized_outcome:
  assumes "validation_fails P1 (req_raw c1) d1 a1"
    and "validation_fails P2 (req_raw c2) d2 a2"
  shows "snd (middleware d1 a1 P1 c1 next1) = Inl (newHTTPException 401 ''unauthorized'') \<and>
         snd (middleware d1 a1 P1 c1 next1) = snd (middleware d2 a2 P2 c2 next2)"
  using middleware_on_failure [OF assms(1)] middleware_on_failure [OF assms(2)] by simp

theorem C1_witness:
  "validation_fails (ex_platform ex_header JNull JNull 0) (req_raw (ex_context None))
     ex_domain ex_aud \<and>
   validation_fails
     (ex_platform ex_header
        (ex_user_payload ex_domain [JStr ex_aud, JStr ex_other_aud] 1700000000 1699999940)
        (ex_certs [ex_key ex_kid] [ex_cert]) 1700000000500)
     (req_raw (ex_context (Some ''hdr.pay.sig''))) ex_domain ex_aud \<and>
   snd (middleware ex_domain ex_aud (ex_platform ex_header JNull JNull 0) (ex_context None)
          ([], Inr ())) = Inl (HTTPException 401 ''unauthorized'') \<and>
   snd (middleware ex_domain ex_aud
          (ex_platform ex_header
             (ex_user_payload ex_domain [JStr ex_aud, JStr ex_other_aud] 1700000000 1699999940)
             (ex_certs [ex_key ex_kid] [ex_cert]) 1700000000500)
          (ex_context (Some ''hdr.pay.sig'')) ([], Inr ()))
     = Inl (HTTPException 401 ''unauthorized'')"
proof -
  have 1: "validation_fails (ex_platform ex_header JNull JNull 0) (req_raw (ex_context None))
     ex_domain ex_aud"
    by (simp add: validation_fails_def hasValidJWT_def extract_cases ex_context_def
        ex_request_def)
  have 2: "validation_fails
     (ex_platform ex_header
        (ex_user_payload ex_domain [JStr ex_aud, JStr ex_other_aud] 1700000000 1699999940)
        (ex_certs [ex_key ex_kid] [ex_cert]) 1700000000500)
     (req_raw (ex_context (Some ''hdr.pay.sig''))) ex_domain ex_aud"
    by (simp add: validation_fails_def ex_context_def ex_user_expired)
  from C1_single_unauthorized_outcome [OF 1 2, of "([], Inr ())" "([], Inr ())"] 1 2
  show ?thesis unfolding newHTTPException_def by metis
qed

lemma floor_seconds: "\<lfloor>unroundedSecondsSinceEpoch P\<rfloor> = Date_now P div 1000"
proof -
  have "\<lfloor>(of_int (Date_now P) :: rat) / of_int 1000\<rfloor> = Date_now P div 1000"
    by (rule floor_divide_of_int_eq)
  then show ?thesis by (simp add: unroundedSecondsSinceEpoch_def)
qed

text \<open>
  C5: in a run that arrives at the checks of the claims with the issuer and the audience
  right, \<open>validateAccessJWT\<close> throws \<open>JWT has expired.\<close> exactly when the floored current
  time in seconds (\<open>Date.now()\<close> divided by 1000, rounded down) is not strictly below
  \<open>exp\<close>; and whatever the other claims are, a payload whose \<open>exp\<close> is at or before the
  floored current time makes validation fail.
\<close>

theorem C5_expiry_strict:
  assumes "reaches_claim_checks P request accessTeamDomain r"
  shows "(iss (run_payloadObj r) = origin (run_certsURL r) \<longrightarrow>
          includesAud (run_payloadObj r) accessAud \<longrightarrow>
            (snd (validateAccessJWT P request accessTeamDomain accessAud)
               = Inl (Error ''JWT has expired.''))
            = (\<not> of_int (Date_now P div 1000) < exp' (run_payloadObj r))) \<and>
         (exp' (run_payloadObj r) \<le> of_int (Date_now P div 1000) \<longrightarrow>
            isl (snd (validateAccessJWT P request accessTeamDomain accessAud))) \<and>
         (\<forall>t jwt payloadObj.
            validateAccessJWT P request accessTeamDomain accessAud = (t, Inr (jwt, payloadObj)) \<longrightarrow>
            payloadObj = run_payloadObj r \<and> of_int (Date_now P div 1000) < exp' payloadObj)"
  unfolding validate_prefix [OF assms] floor_seconds [symmetric]
  by (auto simp: Let_def base64URLDecode_not_Error split: sum.splits)

theorem C5_witness:
  "snd (validateAccessJWT
     (ex_platform ex_header
        (ex_user_payload ex_domain [JStr ex_aud, JStr ex_other_aud] 1700000000 1699999940)
        (ex_certs [ex_key ex_kid] [ex_cert]) 1700000000500)
     (ex_request (Some ''hdr.pay.sig'')) ex_domain ex_aud) = Inl (Error ''JWT has expired.'') \<and>
   snd (validateAccessJWT
     (ex_platform ex_header
        (ex_user_payload ex_domain [JStr ex_aud, JStr ex_other_aud] 1700000001 1699999940)
        (ex_certs [ex_key ex_kid] [ex_cert]) 1700000000500)
     (ex_request (Some ''hdr.pay.sig'')) ex_domain ex_aud) \<noteq> Inl (Error ''JWT has expired.'')"
proof -
  have d: "Date_now (ex_platform h p c n) = n" for h p c n
    by (simp add: ex_platform_def)
  have a: "ex_aud \<in> set [ex_aud, ex_other_aud]" by simp
  from C5_expiry_strict [OF ex_reaches_user [OF ex_domain_parse, of 1700000000 1699999940 1700000000500], of ex_aud]
    C5_expiry_strict [OF ex_reaches_user [OF ex_domain_parse, of 1700000001 1699999940 1700000000500], of ex_aud]
  show ?thesis
    by (simp add: ex_run_simps ex_payloadObj_simps includesAud_def d)
qed

text \<open>
  C6: a payload the user schema accepts has an array \<open>aud\<close>, the strings of the array of
  the token, and \<open>includesAud\<close> holds exactly when the configured audience is one of
  them; a payload the service-auth schema accepts has a string \<open>aud\<close>, the string of the
  token, and \<open>includesAud\<close> holds exactly when it equals the configured audience. In a
  run that arrives at the checks of the claims with the issuer right,
  \<open>validateAccessJWT\<close> throws \<open>JWT audience is incorrect.\<close> exactly when \<open>includesAud\<close>
  is false.
\<close>

theorem C6_audience_check:
  "(\<forall>P v pl. UserAccessPayload_parse P v = Inr pl \<longrightarrow>
      (\<exists>fs xs. v = Some (JObj fs) \<and> map_of fs ''aud'' = Some (JArr (map JStr xs)) \<and>
               aud pl = AudArray xs \<and> includesAud pl accessAud = (accessAud \<in> set xs))) \<and>
   (\<forall>v pl. ServiceAuthAccessPayload_parse v = Inr pl \<longrightarrow>
      (\<exists>fs s. v = Some (JObj fs) \<and> map_of fs ''aud'' = Some (JStr s) \<and>
              aud pl = AudString s \<and> includesAud pl accessAud = (s = accessAud))) \<and>
   (\<forall>P request accessTeamDomain r.
      reaches_claim_checks P request accessTeamDomain r \<longrightarrow>
      iss (run_payloadObj r) = origin (run_certsURL r) \<longrightarrow>
        (snd (validateAccessJWT P request accessTeamDomain accessAud)
           = Inl (Error ''JWT audience is incorrect.''))
        = (\<not> includesAud (run_payloadObj r) accessAud))"
proof (intro conjI allI impI)
  fix P v pl
  assume "UserAccessPayload_parse P v = Inr pl"
  from User_parse_facts [OF this]
  show "\<exists>fs xs. v = Some (JObj fs) \<and> map_of fs ''aud'' = Some (JArr (map JStr xs)) \<and>
               aud pl = AudArray xs \<and> includesAud pl accessAud = (accessAud \<in> set xs)"
    by (auto simp: includesAud_def)
next
  fix v pl
  assume "ServiceAuthAccessPayload_parse v = Inr pl"
  from Service_parse_facts [OF this]
  show "\<exists>fs s. v = Some (JObj fs) \<and> map_of fs ''aud'' = Some (JStr s) \<and>
              aud pl = AudString s \<and> includesAud pl accessAud = (s = accessAud)"
    by (auto simp: includesAud_def)
next
  fix P request accessTeamDomain r
  assume r: "reaches_claim_checks P request accessTeamDomain r"
    and "iss (run_payloadObj r) = origin (run_certsURL r)"
  then show "(snd (validateAccessJWT P request accessTeamDomain accessAud)
           = Inl (Error ''JWT audience is incorrect.''))
        = (\<not> includesAud (run_payloadObj r) accessAud)"
    unfolding validate_prefix [OF r]
    by (auto simp: Let_def base64URLDecode_not_Error split: sum.splits)
qed

theorem C6_witness:
  "includesAud (ex_user_payloadObj ex_domain [ex_aud, ex_other_aud] 1700003600 1699999940) ex_aud \<and>
   \<not> includesAud (ex_user_payloadObj ex_domain [ex_aud, ex_other_aud] 1700003600 1699999940) ex_kid \<and>
   includesAud (ex_service_payloadObj ex_aud 1700003600) ex_aud \<and>
   \<not> includesAud (ex_service_payloadObj ex_aud 1700003600) ex_other_aud \<and>
   snd (validateAccessJWT
     (ex_platform ex_header
        (ex_user_payload ex_domain [JStr ex_aud, JStr ex_other_aud] 1700003600 1699999940)
        (ex_certs [ex_key ex_kid] [ex_cert]) 1700000000500)
     (ex_request (Some ''hdr.pay.sig'')) ex_domain ex_kid)
     = Inl (Error ''JWT audience is incorrect.'')"
proof -
  let ?P = "ex_platform ex_header
        (ex_user_payload ex_domain [JStr ex_aud, JStr ex_other_aud] 1700003600 1699999940)
        (ex_certs [ex_key ex_kid] [ex_cert]) 1700000000500"
  have u: "UserAccessPayload_parse ?P
      (Some (ex_user_payload ex_domain [JStr ex_aud, JStr ex_other_aud] 1700003600 1699999940))
      = Inr (ex_user_payloadObj ex_domain [ex_aud, ex_other_aud] 1700003600 1699999940)"
    by (simp add: ex_user_parse [OF ex_domain_parse])
  have s: "ServiceAuthAccessPayload_parse
      (Some (ex_service_payload ex_aud 1700003600 [(''nbf'', JNum 1)]))
      = Inr (ex_service_payloadObj ex_aud 1700003600)"
    by (simp add: ex_service_parse)
  have r: "reaches_claim_checks ?P (ex_request (Some ''hdr.pay.sig'')) ex_domain
     (ex_run (ex_user_payloadObj ex_domain [ex_aud, ex_other_aud] 1700003600 1699999940))"
    by (rule ex_reaches_user [OF ex_domain_parse]) simp_all
  have ne: "ex_kid \<noteq> ex_aud" "ex_kid \<noteq> ex_other_aud" "ex_aud \<noteq> ex_other_aud"
    by (simp_all add: ex_kid_def ex_aud_def ex_other_aud_def)
  from C6_audience_check [of ex_aud] u s
  have 1: "includesAud (ex_user_payloadObj ex_domain [ex_aud, ex_other_aud] 1700003600 1699999940) ex_aud"
    and 2: "includesAud (ex_service_payloadObj ex_aud 1700003600) ex_aud"
    by (fastforce simp: ex_payloadObj_simps)+
  from C6_audience_check [of ex_other_aud] s
  have 3: "\<not> includesAud (ex_service_payloadObj ex_aud 1700003600) ex_other_aud"
    using ne by (fastforce simp: ex_payloadObj_simps)
  from C6_audience_check [of ex_kid] u
  have 4: "\<not> includesAud (ex_user_payloadObj ex_domain [ex_aud, ex_other_aud] 1700003600 1699999940) ex_kid"
    using ne by (fastforce simp: ex_payloadObj_simps)
  from C6_audience_check [of ex_kid] r 4
  have 5: "snd (validateAccessJWT ?P (ex_request (Some ''hdr.pay.sig'')) ex_domain ex_kid)
     = Inl (Error ''JWT audience is incorrect.'')"
    by (simp add: ex_run_simps ex_payloadObj_simps)
  from 1 2 3 4 5 show ?thesis by simp
qed

lemma ceiling_seconds: "\<lceil>unroundedSecondsSinceEpoch P\<rceil> = - ((- Date_now P) div 1000)"
proof -
  have "\<lceil>(of_int (Date_now P) :: rat) / of_int 1000\<rceil> = - ((- Date_now P) div 1000)"
    by (rule ceiling_divide_eq_div)
  then show ?thesis by (simp add: unroundedSecondsSinceEpoch_def)
qed

text \<open>
  C7: the payload of a run is either a user payload, which carries \<open>identity_nonce\<close> and
  \<open>nbf\<close>, or a service-auth payload, which carries neither. With the issuer, the audience
  and the expiry right, \<open>validateAccessJWT\<close> throws \<open>JWT is not yet valid.\<close> exactly when
  the payload carries \<open>identity_nonce\<close> and the current time in seconds, rounded up, is
  below \<open>nbf\<close>. A service-auth payload is never rejected as not yet valid, whatever
  \<open>nbf\<close> the token holds, and its token is accepted when the signature verifies.
\<close>

theorem C7_not_before_only_for_users:
  assumes "reaches_claim_checks P request accessTeamDomain r"
    and "iss (run_payloadObj r) = origin (run_certsURL r)"
    and "includesAud (run_payloadObj r) accessAud"
    and "of_int (Date_now P div 1000) < exp' (run_payloadObj r)"
  shows "(\<exists>j. decode_segment P (run_payload r) = Inr j \<and>
            ((UserAccessPayload_parse P (Some j) = Inr (run_payloadObj r) \<and>
              (\<exists>n nb. identity_nonce (run_payloadObj r) = Some n \<and> n \<noteq> [] \<and>
                      nbf (run_payloadObj r) = Some nb)) \<or>
             (ServiceAuthAccessPayload_parse (Some j) = Inr (run_payloadObj r) \<and>
              identity_nonce (run_payloadObj r) = None \<and> nbf (run_payloadObj r) = None))) \<and>
         ((snd (validateAccessJWT P request accessTeamDomain accessAud)
             = Inl (Error ''JWT is not yet valid.''))
          = (\<exists>n nb. identity_nonce (run_payloadObj r) = Some n \<and> nbf (run_payloadObj r) = Some nb \<and>
                    of_int (- ((- Date_now P) div 1000)) < nb)) \<and>
         (identity_nonce (run_payloadObj r) = None \<longrightarrow>
            (\<forall>sg. base64URLDecode P (run_signature r) = Inr sg \<longrightarrow>
                  crypto_subtle_verify P (run_key r) sg (signed_data r) \<longrightarrow>
                  validateAccessJWT P request accessTeamDomain accessAud =
                    (trace_to_claims r @ [Verify (run_key r) sg (signed_data r)],
                     Inr (run_jwt r, run_payloadObj r))))"
proof -
  let ?pl = "run_payloadObj r"
  from assms(1) obtain j where j: "decode_segment P (run_payload r) = Inr j"
      and p: "AccessPayload_parse P (Some j) = Inr ?pl"
    by (auto simp: reaches_claim_checks_def bindE_Inr_iff)
  have variants:
    "(UserAccessPayload_parse P (Some j) = Inr ?pl \<and>
        (\<exists>n nb. identity_nonce ?pl = Some n \<and> n \<noteq> [] \<and> nbf ?pl = Some nb)) \<or>
     (ServiceAuthAccessPayload_parse (Some j) = Inr ?pl \<and>
        identity_nonce ?pl = None \<and> nbf ?pl = None)"
    using AccessPayload_parse_variants [OF p]
  proof
    assume u: "UserAccessPayload_parse P (Some j) = Inr ?pl"
    from User_parse_facts [OF u] u show ?thesis by blast
  next
    assume "isl (UserAccessPayload_parse P (Some j)) \<and>
            ServiceAuthAccessPayload_parse (Some j) = Inr ?pl"
    then have s: "ServiceAuthAccessPayload_parse (Some j) = Inr ?pl" ..
    from Service_parse_facts [OF s] s show ?thesis by blast
  qed
  have nyv: "not_yet_valid ?pl (unroundedSecondsSinceEpoch P) =
      (\<exists>n nb. identity_nonce ?pl = Some n \<and> nbf ?pl = Some nb \<and>
              of_int (- ((- Date_now P) div 1000)) < nb)"
    using variants by (auto simp: not_yet_valid_def ceiling_seconds)
  have exp_ok: "\<not> exp' ?pl \<le> of_int \<lfloor>unroundedSecondsSinceEpoch P\<rfloor>"
    using assms(4) by (simp add: floor_seconds)
  have v: "validateAccessJWT P request accessTeamDomain accessAud =
     (if not_yet_valid ?pl (unroundedSecondsSinceEpoch P)
       then (trace_to_claims r, Inl (Error ''JWT is not yet valid.''))
     else (case base64URLDecode P (run_signature r) of
             Inl e \<Rightarrow> (trace_to_claims r, Inl e)
           | Inr sg \<Rightarrow>
               (trace_to_claims r @ [Verify (run_key r) sg (signed_data r)],
                if crypto_subtle_verify P (run_key r) sg (signed_data r)
                then Inr (run_jwt r, ?pl)
                else Inl (Error ''Could not verify JWT.''))))"
    unfolding validate_prefix [OF assms(1)] using assms(2,3) exp_ok by (simp add: Let_def)
  have a: "(snd (validateAccessJWT P request accessTeamDomain accessAud)
             = Inl (Error ''JWT is not yet valid.''))
          = not_yet_valid ?pl (unroundedSecondsSinceEpoch P)"
    unfolding v by (auto simp: base64URLDecode_not_Error split: sum.splits)
  have b: "identity_nonce ?pl = None \<longrightarrow>
            (\<forall>sg. base64URLDecode P (run_signature r) = Inr sg \<longrightarrow>
                  crypto_subtle_verify P (run_key r) sg (signed_data r) \<longrightarrow>
                  validateAccessJWT P request accessTeamDomain accessAud =
                    (trace_to_claims r @ [Verify (run_key r) sg (signed_data r)],
                     Inr (run_jwt r, ?pl)))"
    unfolding v by (simp add: nyv)
  from j variants a b show ?thesis unfolding nyv by blast
qed

theorem C7_witness:
  "validateAccessJWT
     (ex_platform ex_header (ex_service_payload ex_aud 1700003600 [(''nbf'', JNum 1800000000)])
        (ex_certs [ex_key ex_kid] [ex_cert]) 1700000000500)
     (ex_request (Some ''hdr.pay.sig'')) ex_domain ex_aud =
   ([Fetch ''https://my-team.cloudflareaccess.com/cdn-cgi/access/certs'', ImportKey ex_access_key,
     Verify (CryptoKey ex_access_key) [115, 105, 103]
       (signed_data (ex_run (ex_service_payloadObj ex_aud 1700003600)))],
    Inr (''hdr.pay.sig'', ex_service_payloadObj ex_aud 1700003600)) \<and>
   snd (validateAccessJWT
     (ex_platform ex_header
        (ex_user_payload ex_domain [JStr ex_aud, JStr ex_other_aud] 1700003600 1700000002)
        (ex_certs [ex_key ex_kid] [ex_cert]) 1700000000500)
     (ex_request (Some ''hdr.pay.sig'')) ex_domain ex_aud)
     = Inl (Error ''JWT is not yet valid.'') \<and>
   snd (validateAccessJWT
     (ex_platform ex_header
        (ex_user_payload ex_domain [JStr ex_aud, JStr ex_other_aud] 1700003600 1700000001)
        (ex_certs [ex_key ex_kid] [ex_cert]) 1700000000500)
     (ex_request (Some ''hdr.pay.sig'')) ex_domain ex_aud)
     \<noteq> Inl (Error ''JWT is not yet valid.'')"
proof -
  have d: "Date_now (ex_platform h p c n) = n" for h p c n
    by (simp add: ex_platform_def)
  have s: "validateAccessJWT
     (ex_platform ex_header (ex_service_payload ex_aud 1700003600 [(''nbf'', JNum 1800000000)])
        (ex_certs [ex_key ex_kid] [ex_cert]) 1700000000500)
     (ex_request (Some ''hdr.pay.sig'')) ex_domain ex_aud =
   ([Fetch ''https://my-team.cloudflareaccess.com/cdn-cgi/access/certs'', ImportKey ex_access_key,
     Verify (CryptoKey ex_access_key) [115, 105, 103]
       (signed_data (ex_run (ex_service_payloadObj ex_aud 1700003600)))],
    Inr (''hdr.pay.sig'', ex_service_payloadObj ex_aud 1700003600))"
    using C7_not_before_only_for_users
      [OF ex_reaches_service [of 1700003600 1800000000 1700000000500], of ex_aud]
    by (simp add: ex_run_simps ex_payloadObj_simps includesAud_def d ex_sig ex_verify)
  have u1: "snd (validateAccessJWT
     (ex_platform ex_header
        (ex_user_payload ex_domain [JStr ex_aud, JStr ex_other_aud] 1700003600 1700000002)
        (ex_certs [ex_key ex_kid] [ex_cert]) 1700000000500)
     (ex_request (Some ''hdr.pay.sig'')) ex_domain ex_aud)
     = Inl (Error ''JWT is not yet valid.'')"
    using C7_not_before_only_for_users
      [OF ex_reaches_user [OF ex_domain_parse, of 1700003600 1700000002 1700000000500], of ex_aud]
    by (simp add: ex_run_simps ex_payloadObj_simps includesAud_def d)
  have u2: "snd (validateAccessJWT
     (ex_platform ex_header
        (ex_user_payload ex_domain [JStr ex_aud, JStr ex_other_aud] 1700003600 1700000001)
        (ex_certs [ex_key ex_kid] [ex_cert]) 1700000000500)
     (ex_request (Some ''hdr.pay.sig'')) ex_domain ex_aud)
     \<noteq> Inl (Error ''JWT is not yet valid.'')"
    using C7_not_before_only_for_users
      [OF ex_reaches_user [OF ex_domain_parse, of 1700003600 1700000001 1700000000500], of ex_aud]
    by (simp add: ex_run_simps ex_payloadObj_simps includesAud_def d)
  from s u1 u2 show ?thesis by blast
qed

lemma useCloudflareAccess_Inr:
  assumes "useCloudflareAccess team audience = Inr m"
  shows "m = middleware (''https://'' @ team @ ''.cloudflareaccess.com'') audience"
  using assms
  by (auto simp: useCloudflareAccess_def bindE_Inr_iff AccessTeam_parse_def
      AccessTeamDomain_parse_def AccessAudience_parse_def z_string_def z_regex_def
      split: if_splits)

text \<open>
  C2: the middleware \<open>useCloudflareAccess\<close> returns validates against the domain
  \<open>https://<team>.cloudflareaccess.com\<close> of the configured team. For that domain
  \<open>validateAccessJWT\<close> builds the certs URL from the domain alone, every fetch it makes
  is of that URL, and a token it accepts has a payload whose \<open>iss\<close> is the origin of that
  URL. A payload with any other \<open>iss\<close> is rejected with \<open>JWT issuer is incorrect.\<close> after
  the fetch and the key import, before \<open>crypto.subtle.verify\<close> is called.
\<close>

theorem C2_issuer_is_configured_origin:
  "(\<forall>m. useCloudflareAccess team audience = Inr m \<longrightarrow>
       m = middleware (''https://'' @ team @ ''.cloudflareaccess.com'') audience) \<and>
   (\<forall>t jwt payloadObj.
       validateAccessJWT P request accessTeamDomain accessAud = (t, Inr (jwt, payloadObj)) \<longrightarrow>
       (\<exists>certsURL. new_URL P ''/cdn-cgi/access/certs'' accessTeamDomain = Some certsURL \<and>
                   iss payloadObj = origin certsURL \<and> Fetch (href certsURL) \<in> set t)) \<and>
   (\<forall>url. Fetch url \<in> set (fst (validateAccessJWT P request accessTeamDomain accessAud)) \<longrightarrow>
       (\<exists>certsURL. new_URL P ''/cdn-cgi/access/certs'' accessTeamDomain = Some certsURL \<and>
                   url = href certsURL)) \<and>
   (\<forall>r. reaches_claim_checks P request accessTeamDomain r \<longrightarrow>
       iss (run_payloadObj r) \<noteq> origin (run_certsURL r) \<longrightarrow>
       validateAccessJWT P request accessTeamDomain accessAud =
         ([Fetch (href (run_certsURL r)), ImportKey (run_jwk r)],
          Inl (Error ''JWT issuer is incorrect.'')))"
proof (intro conjI allI impI)
  fix m
  assume "useCloudflareAccess team audience = Inr m"
  then show "m = middleware (''https://'' @ team @ ''.cloudflareaccess.com'') audience"
    by (rule useCloudflareAccess_Inr)
next
  fix t jwt payloadObj
  assume v: "validateAccessJWT P request accessTeamDomain accessAud = (t, Inr (jwt, payloadObj))"
  from validate_Inr_reaches [OF v] obtain r where
    r: "reaches_claim_checks P request accessTeamDomain r" and p: "payloadObj = run_payloadObj r"
    by auto
  from r have u: "new_URL P ''/cdn-cgi/access/certs'' accessTeamDomain = Some (run_certsURL r)"
    by (auto simp: reaches_claim_checks_def certs_URL_def split: option.splits)
  from v have "iss payloadObj = origin (run_certsURL r) \<and> Fetch (href (run_certsURL r)) \<in> set t"
    unfolding validate_prefix [OF r] p
    by (auto simp: Let_def trace_to_claims_def split: if_splits sum.splits)
  with u show "\<exists>certsURL. new_URL P ''/cdn-cgi/access/certs'' accessTeamDomain = Some certsURL \<and>
                   iss payloadObj = origin certsURL \<and> Fetch (href certsURL) \<in> set t"
    by blast
next
  fix url
  assume "Fetch url \<in> set (fst (validateAccessJWT P request accessTeamDomain accessAud))"
  from validate_fetch_url [OF this]
  show "\<exists>certsURL. new_URL P ''/cdn-cgi/access/certs'' accessTeamDomain = Some certsURL \<and>
                   url = href certsURL"
    by (auto simp: certs_URL_def split: option.splits)
next
  fix r
  assume r: "reaches_claim_checks P request accessTeamDomain r"
    and "iss (run_payloadObj r) \<noteq> origin (run_certsURL r)"
  then show "validateAccessJWT P request accessTeamDomain accessAud =
         ([Fetch (href (run_certsURL r)), ImportKey (run_jwk r)],
          Inl (Error ''JWT issuer is incorrect.''))"
    unfolding validate_prefix [OF r] by (simp add: Let_def trace_to_claims_def)
qed

lemma ex_evil_domain_parse:
  "AccessTeamDomain_parse (Some (JStr ''https://evil.cloudflareaccess.com''))
     = Inr ''https://evil.cloudflareaccess.com''"
  by (simp add: AccessTeamDomain_parse_def bindE_def z_string_def z_regex_def
      team_class_def Plus_def in_cls_def)

theorem C2_witness:
  "validateAccessJWT
     (ex_platform ex_header
        (ex_user_payload ''https://evil.cloudflareaccess.com'' [JStr ex_aud, JStr ex_other_aud]
           1700003600 1699999940)
        (ex_certs [ex_key ex_kid] [ex_cert]) 1700000000500)
     (ex_request (Some ''hdr.pay.sig'')) ex_domain ex_aud =
   ([Fetch ''https://my-team.cloudflareaccess.com/cdn-cgi/access/certs'', ImportKey ex_access_key],
    Inl (Error ''JWT issuer is incorrect.'')) \<and>
   iss (ex_user_payloadObj ex_domain [ex_aud, ex_other_aud] 1700003600 1699999940)
     = ''https://my-team.cloudflareaccess.com''"
proof -
  let ?P = "ex_platform ex_header
        (ex_user_payload ex_domain [JStr ex_aud, JStr ex_other_aud] 1700003600 1699999940)
        (ex_certs [ex_key ex_kid] [ex_cert]) 1700000000500"
  have u: "new_URL ?P ''/cdn-cgi/access/certs'' ex_domain =
      Some \<lparr>href = ''https://my-team.cloudflareaccess.com/cdn-cgi/access/certs'',
            origin = ''https://my-team.cloudflareaccess.com''\<rparr>"
    by (simp add: ex_platform_def ex_domain_def)
  from C2_issuer_is_configured_origin [of _ _ ?P "ex_request (Some ''hdr.pay.sig'')" ex_domain ex_aud]
    ex_user_accepted u
  have 1: "iss (ex_user_payloadObj ex_domain [ex_aud, ex_other_aud] 1700003600 1699999940)
     = ''https://my-team.cloudflareaccess.com''"
    by auto
  have ne: "''https://evil.cloudflareaccess.com'' \<noteq> ex_domain" by (simp add: ex_domain_def)
  from C2_issuer_is_configured_origin [of _ _ "ex_platform ex_header
        (ex_user_payload ''https://evil.cloudflareaccess.com'' [JStr ex_aud, JStr ex_other_aud]
           1700003600 1699999940)
        (ex_certs [ex_key ex_kid] [ex_cert]) 1700000000500"
      "ex_request (Some ''hdr.pay.sig'')" ex_domain ex_aud]
    ex_reaches_user [OF ex_evil_domain_parse, of 1700003600 1699999940 1700000000500] ne
  have 2: "validateAccessJWT
     (ex_platform ex_header
        (ex_user_payload ''https://evil.cloudflareaccess.com'' [JStr ex_aud, JStr ex_other_aud]
           1700003600 1699999940)
        (ex_certs [ex_key ex_kid] [ex_cert]) 1700000000500)
     (ex_request (Some ''hdr.pay.sig'')) ex_domain ex_aud =
   ([Fetch ''https://my-team.cloudflareaccess.com/cdn-cgi/access/certs'', ImportKey ex_access_key],
    Inl (Error ''JWT issuer is incorrect.''))"
    by (simp add: ex_run_simps ex_payloadObj_simps ex_run_def)
  from 1 2 show ?thesis by simp
qed

lemma in_team_class:
  "in_cls [(CHR ''a'', CHR ''z''), (CHR ''0'', CHR ''9''), (CHR ''-'', CHR ''-'')] =
     (\<lambda>c. (CHR ''a'' \<le> c \<and> c \<le> CHR ''z'') \<or> (CHR ''0'' \<le> c \<and> c \<le> CHR ''9'') \<or> c = CHR ''-'')"
  by (rule ext) (auto simp: in_cls_def)

lemma AccessTeam_parse_iff:
  "AccessTeam_parse (Some (JStr team)) =
     (if team \<noteq> [] \<and>
         list_all (\<lambda>c. (CHR ''a'' \<le> c \<and> c \<le> CHR ''z'') \<or> (CHR ''0'' \<le> c \<and> c \<le> CHR ''9'') \<or>
                        c = CHR ''-'') team
      then Inr team else Inl ZodError)"
  by (simp add: AccessTeam_parse_def bindE_def z_string_def z_regex_def team_class_def
      regex_test_Plus_Cls in_team_class)

lemma concI: "u \<in> A \<Longrightarrow> v \<in> B \<Longrightarrow> u @ v \<in> conc A B"
  unfolding conc_def by blast

lemma AccessTeamDomain_of_team:
  assumes "AccessTeam_parse (Some (JStr team)) = Inr t"
  shows "AccessTeamDomain_parse (Some (JStr (''https://'' @ t @ ''.cloudflareaccess.com'')))
           = Inr (''https://'' @ t @ ''.cloudflareaccess.com'')"
proof -
  from assms have "regex_test (Plus team_class) t"
    by (auto simp: AccessTeam_parse_def bindE_def z_string_def z_regex_def split: if_splits)
  then have t: "t \<in> lang (Plus team_class)" by (simp add: regex_test_lang)
  have l: "w \<in> lang (Lit w)" for w by (simp add: lang_Lit)
  have "''https://'' @ t @ ''.cloudflareaccess.com''
      \<in> conc (lang (Lit ''https://''))
          (conc (lang (Plus team_class)) (lang (Lit ''.cloudflareaccess.com'')))"
    by (intro concI t l)
  then have "regex_test (Seq (Lit ''https://'') (Seq (Plus team_class) (Lit ''.cloudflareaccess.com'')))
      (''https://'' @ t @ ''.cloudflareaccess.com'')"
    unfolding regex_test_lang lang.simps .
  then show ?thesis
    unfolding AccessTeamDomain_parse_def bindE_def z_string_def z_regex_def
    by (simp del: regex_test.simps Lit.simps append.simps)
qed

text \<open>
  C8, as amended: with a well-formed audience, \<open>useCloudflareAccess\<close> returns a middleware
  exactly when the team is a non-empty string of lower-case letters \<open>a\<close> to \<open>z\<close>, digits
  and hyphens, and then it is the middleware for \<open>https://<team>.cloudflareaccess.com\<close>;
  for every other team, and so for every team with a character that is not alphanumeric
  or a hyphen, it throws a \<open>ZodError\<close> when it is called, and no middleware exists to
  handle a request.
\<close>

theorem C8_team_lower_case_only:
  "(AccessAudience_parse (Some (JStr audience)) = Inr audience \<longrightarrow>
      (useCloudflareAccess team audience
         = Inr (middleware (''https://'' @ team @ ''.cloudflareaccess.com'') audience))
      = (team \<noteq> [] \<and>
         list_all (\<lambda>c. (CHR ''a'' \<le> c \<and> c \<le> CHR ''z'') \<or> (CHR ''0'' \<le> c \<and> c \<le> CHR ''9'') \<or>
                        c = CHR ''-'') team)) \<and>
   (\<not> (team \<noteq> [] \<and>
        list_all (\<lambda>c. (CHR ''a'' \<le> c \<and> c \<le> CHR ''z'') \<or> (CHR ''0'' \<le> c \<and> c \<le> CHR ''9'') \<or>
                       c = CHR ''-'') team) \<longrightarrow>
      useCloudflareAccess team audience = Inl ZodError) \<and>
   (\<not> list_all spec_team_char team \<longrightarrow> useCloudflareAccess team audience = Inl ZodError)"
proof -
  let ?ok = "team \<noteq> [] \<and>
         list_all (\<lambda>c. (CHR ''a'' \<le> c \<and> c \<le> CHR ''z'') \<or> (CHR ''0'' \<le> c \<and> c \<le> CHR ''9'') \<or>
                        c = CHR ''-'') team"
  have bad: "useCloudflareAccess team audience = Inl ZodError" if "\<not> ?ok"
  proof -
    have "AccessTeam_parse (Some (JStr team)) = Inl ZodError"
      by (rule trans [OF AccessTeam_parse_iff if_not_P [OF that]])
    then show ?thesis by (simp add: useCloudflareAccess_def bindE_def)
  qed
  have good: "useCloudflareAccess team audience
         = Inr (middleware (''https://'' @ team @ ''.cloudflareaccess.com'') audience)"
    if "?ok" and a: "AccessAudience_parse (Some (JStr audience)) = Inr audience"
  proof -
    have t: "AccessTeam_parse (Some (JStr team)) = Inr team"
      by (rule trans [OF AccessTeam_parse_iff if_P [OF that(1)]])
    show ?thesis
      unfolding useCloudflareAccess_def
      by (simp add: t AccessTeamDomain_of_team [OF t] a bindE_def del: append.simps)
  qed
  have spec: "\<not> ?ok" if "\<not> list_all spec_team_char team"
    using that by (auto simp: list_all_iff spec_team_char_def)
  show ?thesis
  proof (intro conjI impI)
    assume a: "AccessAudience_parse (Some (JStr audience)) = Inr audience"
    show "(useCloudflareAccess team audience
         = Inr (middleware (''https://'' @ team @ ''.cloudflareaccess.com'') audience)) = ?ok"
    proof (cases ?ok)
      case True
      from good [OF True a] True show ?thesis by blast
    next
      case False
      from bad [OF False] have "useCloudflareAccess team audience
         \<noteq> Inr (middleware (''https://'' @ team @ ''.cloudflareaccess.com'') audience)"
        by (simp only: sum.distinct not_False_eq_True)
      with False show ?thesis by blast
    qed
  next
    assume "\<not> ?ok"
    then show "useCloudflareAccess team audience = Inl ZodError" by (rule bad)
  next
    assume "\<not> list_all spec_team_char team"
    then have "\<not> ?ok" by (rule spec)
    then show "useCloudflareAccess team audience = Inl ZodError" by (rule bad)
  qed
qed

theorem C8_witness:
  "useCloudflareAccess ''my-team'' ex_aud = Inr (middleware ex_domain ex_aud) \<and>
   useCloudflareAccess ''my_team'' ex_aud = Inl ZodError"
proof -
  have 1: "list_all (\<lambda>c. (CHR ''a'' \<le> c \<and> c \<le> CHR ''z'') \<or> (CHR ''0'' \<le> c \<and> c \<le> CHR ''9'') \<or>
                        c = CHR ''-'') ''my-team''" by simp
  have 2: "\<not> list_all spec_team_char ''my_team''" by (simp add: spec_team_char_def)
  from C8_team_lower_case_only [of ex_aud "''my-team''"]
    C8_team_lower_case_only [of ex_aud "''my_team''"] ex_aud_parse 1 2
  show ?thesis by (simp add: ex_domain_def)
qed

theorem C8_counterexample:
  "''Team'' \<noteq> [] \<and> list_all spec_team_char ''Team'' \<and>
   AccessAudience_parse (Some (JStr ex_aud)) = Inr ex_aud \<and>
   useCloudflareAccess ''Team'' ex_aud = Inl ZodError"
  by (simp add: spec_team_char_def ex_aud_parse useCloudflareAccess_def AccessTeam_parse_iff
      bindE_def)

end
